theory Spec2Isabelle
  imports
    Complex_Main
    "HOL-Library.Char_ord"
    "HOL-Library.List_Lexorder"
    "HOL-Library.Multiset"
begin

section \<open>BloodSync: matching and fulfilment ledger\<close>

text \<open>
  A shallow embedding of the matching and ledger code of \<^verbatim>\<open>app.py\<close> (the flat-file
  application). \<^verbatim>\<open>app_aws.py\<close> repeats the two compatibility tables,
  \<^verbatim>\<open>can_donate\<close> and \<^verbatim>\<open>calculate_donor_eligibility\<close> line for line, so the
  definitions of these below stand for both files.

  Python integers are \<^typ>\<open>int\<close>, strings are \<^typ>\<open>string\<close>, \<^verbatim>\<open>None\<close>-able strings are
  \<^typ>\<open>string option\<close>. Form fields that the routes convert with \<^verbatim>\<open>int(...)\<close> enter the
  model as integers already converted. Identifiers that the routes draw from \<^verbatim>\<open>uuid4\<close>
  and the clock read by \<^verbatim>\<open>datetime.now()\<close> are parameters of the operations.
\<close>

subsection \<open>Compatibility tables\<close>

text \<open>\<^verbatim>\<open>BLOOD_COMPATIBILITY\<close>: donor blood group to the recipient groups it may give to.\<close>

definition BLOOD_COMPATIBILITY :: "(string \<times> string list) list" where
  "BLOOD_COMPATIBILITY =
    [(''A+'', [''A+'', ''AB+'']),
     (''A-'', [''A+'', ''A-'', ''AB+'', ''AB-'']),
     (''B+'', [''B+'', ''AB+'']),
     (''B-'', [''B+'', ''B-'', ''AB+'', ''AB-'']),
     (''AB+'', [''AB+'']),
     (''AB-'', [''AB+'', ''AB-'']),
     (''O+'', [''O+'', ''A+'', ''B+'', ''AB+'']),
     (''O-'', [''O+'', ''O-'', ''A+'', ''A-'', ''B+'', ''B-'', ''AB+'', ''AB-''])]"

text \<open>\<^verbatim>\<open>RECEIVE_COMPATIBILITY\<close>: recipient blood group to the donor groups it accepts.\<close>

definition RECEIVE_COMPATIBILITY :: "(string \<times> string list) list" where
  "RECEIVE_COMPATIBILITY =
    [(''A+'', [''A+'', ''A-'', ''O+'', ''O-'']),
     (''A-'', [''A-'', ''O-'']),
     (''B+'', [''B+'', ''B-'', ''O+'', ''O-'']),
     (''B-'', [''B-'', ''O-'']),
     (''AB+'', [''A+'', ''A-'', ''B+'', ''B-'', ''AB+'', ''AB-'', ''O+'', ''O-'']),
     (''AB-'', [''A-'', ''B-'', ''AB-'', ''O-'']),
     (''O+'', [''O+'', ''O-'']),
     (''O-'', [''O-''])]"

text \<open>\<^verbatim>\<open>d.get(k, [])\<close> on a table.\<close>

definition get_list :: "(string \<times> string list) list \<Rightarrow> string \<Rightarrow> string list" where
  "get_list table k = (case map_of table k of None \<Rightarrow> [] | Some v \<Rightarrow> v)"

definition get_compatible_donor_blood_groups :: "string \<Rightarrow> string list" where
  "get_compatible_donor_blood_groups recipient_blood_group =
     get_list RECEIVE_COMPATIBILITY recipient_blood_group"

text \<open>\<^verbatim>\<open>BLOOD_COMPATIBILITY.get(donor_blood_group, [])\<close>, as read by
  \<^verbatim>\<open>get_available_requests_for_donor\<close>.\<close>

definition can_donate_to :: "string \<Rightarrow> string list" where
  "can_donate_to donor_blood_group = get_list BLOOD_COMPATIBILITY donor_blood_group"

text \<open>The eight groups, in the order of the tables' keys.\<close>

definition blood_groups :: "string list" where
  "blood_groups = [''A+'', ''A-'', ''B+'', ''B-'', ''AB+'', ''AB-'', ''O+'', ''O-'']"

subsection \<open>Dates\<close>

text \<open>
  The standard library's proleptic Gregorian calendar, as \<^verbatim>\<open>datetime\<close> computes it:
  \<^verbatim>\<open>_is_leap\<close>, \<^verbatim>\<open>_days_in_month\<close>, \<^verbatim>\<open>_days_before_year\<close>,
  \<^verbatim>\<open>_days_before_month\<close> and \<^verbatim>\<open>_ymd2ord\<close>.
\<close>

definition is_leap :: "int \<Rightarrow> bool" where
  "is_leap y \<longleftrightarrow> y mod 4 = 0 \<and> (y mod 100 \<noteq> 0 \<or> y mod 400 = 0)"

definition days_in_month :: "int \<Rightarrow> int \<Rightarrow> int" where
  "days_in_month y m =
     (if m = 2 then (if is_leap y then 29 else 28)
      else if m = 4 \<or> m = 6 \<or> m = 9 \<or> m = 11 then 30 else 31)"

definition days_before_year :: "int \<Rightarrow> int" where
  "days_before_year y = (y - 1) * 365 + (y - 1) div 4 - (y - 1) div 100 + (y - 1) div 400"

definition days_before_month :: "int \<Rightarrow> int \<Rightarrow> int" where
  "days_before_month y m =
     (if m = 1 then 0 else if m = 2 then 31 else if m = 3 then 59 else if m = 4 then 90
      else if m = 5 then 120 else if m = 6 then 151 else if m = 7 then 181
      else if m = 8 then 212 else if m = 9 then 243 else if m = 10 then 273
      else if m = 11 then 304 else 334)
     + (if 2 < m \<and> is_leap y then 1 else 0)"

definition ymd2ord :: "int \<Rightarrow> int \<Rightarrow> int \<Rightarrow> int" where
  "ymd2ord y m d = days_before_year y + days_before_month y m + d"

definition valid_date :: "int \<Rightarrow> int \<Rightarrow> int \<Rightarrow> bool" where
  "valid_date y m d \<longleftrightarrow> 1 \<le> y \<and> y \<le> 9999 \<and> 1 \<le> m \<and> m \<le> 12 \<and> 1 \<le> d \<and> d \<le> days_in_month y m"

text \<open>A \<^verbatim>\<open>datetime\<close> value: the date and the time of day.\<close>

record datetime =
  year :: int
  month :: int
  day :: int
  hour :: int
  minute :: int
  second :: int
  microsecond :: int

definition valid_datetime :: "datetime \<Rightarrow> bool" where
  "valid_datetime t \<longleftrightarrow>
     valid_date (year t) (month t) (day t) \<and> 0 \<le> hour t \<and> hour t < 24 \<and>
     0 \<le> minute t \<and> minute t < 60 \<and> 0 \<le> second t \<and> second t < 60 \<and>
     0 \<le> microsecond t \<and> microsecond t < 1000000"

definition toordinal :: "datetime \<Rightarrow> int" where
  "toordinal t = ymd2ord (year t) (month t) (day t)"

text \<open>Microseconds since the start of day 0, the quantity that \<^verbatim>\<open>datetime\<close> subtraction
  takes the difference of.\<close>

definition total_microseconds :: "datetime \<Rightarrow> int" where
  "total_microseconds t =
     ((toordinal t * 86400 + hour t * 3600 + minute t * 60 + second t) * 1000000
      + microsecond t)"

text \<open>\<^verbatim>\<open>(a - b).days\<close>: a \<^verbatim>\<open>timedelta\<close> is normalised so that its seconds and
  microseconds are non-negative, hence its \<^verbatim>\<open>days\<close> is the floor of the difference.\<close>

definition timedelta_days :: "datetime \<Rightarrow> datetime \<Rightarrow> int" where
  "timedelta_days a b = (total_microseconds a - total_microseconds b) div (86400 * 1000000)"

text \<open>
  \<^verbatim>\<open>datetime.strptime(s, '%Y-%m-%d')\<close>. The library matches the regular expression
  \<^verbatim>\<open>(\d\d\d\d)-(1[0-2]|0[1-9]|[1-9])-(3[0-1]|[1-2]\d|0[1-9]|[1-9]| [1-9])\<close> at the start
  of the string, raises \<^verbatim>\<open>ValueError\<close> when it does not match, when text remains after
  the match, or when the three numbers are not a date, and returns midnight of that date
  otherwise. \<^const>\<open>None\<close> is the \<^verbatim>\<open>ValueError\<close>. Digits are the ASCII digits.
\<close>

definition is_digit :: "char \<Rightarrow> bool" where
  "is_digit c \<longleftrightarrow> CHR ''0'' \<le> c \<and> c \<le> CHR ''9''"

definition digit_value :: "char \<Rightarrow> int" where
  "digit_value c = int (of_char c) - 48"

fun parse_year :: "string \<Rightarrow> (int \<times> string) option" where
  "parse_year (a # b # c # d # rest) =
     (if is_digit a \<and> is_digit b \<and> is_digit c \<and> is_digit d
      then Some (digit_value a * 1000 + digit_value b * 100 + digit_value c * 10 + digit_value d, rest)
      else None)"
| "parse_year _ = None"

definition parse_dash :: "string \<Rightarrow> string option" where
  "parse_dash s = (case s of [] \<Rightarrow> None | c # rest \<Rightarrow> if c = CHR ''-'' then Some rest else None)"

text \<open>The alternatives of a group are tried in the order the expression lists them.\<close>

definition parse_month :: "string \<Rightarrow> (int \<times> string) option" where
  "parse_month s =
     (case s of
        [] \<Rightarrow> None
      | a # r1 \<Rightarrow>
          (case r1 of
             b # r2 \<Rightarrow>
               if a = CHR ''1'' \<and> CHR ''0'' \<le> b \<and> b \<le> CHR ''2'' then Some (10 + digit_value b, r2)
               else if a = CHR ''0'' \<and> CHR ''1'' \<le> b \<and> b \<le> CHR ''9'' then Some (digit_value b, r2)
               else if CHR ''1'' \<le> a \<and> a \<le> CHR ''9'' then Some (digit_value a, r1)
               else None
           | [] \<Rightarrow>
               if CHR ''1'' \<le> a \<and> a \<le> CHR ''9'' then Some (digit_value a, r1) else None))"

definition parse_day :: "string \<Rightarrow> (int \<times> string) option" where
  "parse_day s =
     (case s of
        [] \<Rightarrow> None
      | a # r1 \<Rightarrow>
          (case r1 of
             b # r2 \<Rightarrow>
               if a = CHR ''3'' \<and> CHR ''0'' \<le> b \<and> b \<le> CHR ''1'' then Some (30 + digit_value b, r2)
               else if CHR ''1'' \<le> a \<and> a \<le> CHR ''2'' \<and> is_digit b
                 then Some (digit_value a * 10 + digit_value b, r2)
               else if a = CHR ''0'' \<and> CHR ''1'' \<le> b \<and> b \<le> CHR ''9'' then Some (digit_value b, r2)
               else if CHR ''1'' \<le> a \<and> a \<le> CHR ''9'' then Some (digit_value a, r1)
               else if a = CHR '' '' \<and> CHR ''1'' \<le> b \<and> b \<le> CHR ''9'' then Some (digit_value b, r2)
               else None
           | [] \<Rightarrow>
               if CHR ''1'' \<le> a \<and> a \<le> CHR ''9'' then Some (digit_value a, r1) else None))"

definition strptime :: "string \<Rightarrow> datetime option" where
  "strptime s =
     (case parse_year s of
        None \<Rightarrow> None
      | Some (y, s1) \<Rightarrow>
     (case parse_dash s1 of
        None \<Rightarrow> None
      | Some s2 \<Rightarrow>
     (case parse_month s2 of
        None \<Rightarrow> None
      | Some (m, s3) \<Rightarrow>
     (case parse_dash s3 of
        None \<Rightarrow> None
      | Some s4 \<Rightarrow>
     (case parse_day s4 of
        None \<Rightarrow> None
      | Some (d, s5) \<Rightarrow>
          if s5 = [] \<and> valid_date y m d
          then Some \<lparr>year = y, month = m, day = d, hour = 0, minute = 0, second = 0,
                     microsecond = 0\<rparr>
          else None)))))"

text \<open>\<^verbatim>\<open>t.strftime('%Y-%m-%d')\<close>, for the four-digit years the application runs in.\<close>

definition digit_char :: "int \<Rightarrow> char" where
  "digit_char n = ''0123456789'' ! nat n"

definition strftime_date :: "datetime \<Rightarrow> string" where
  "strftime_date t =
     [digit_char (year t div 1000 mod 10), digit_char (year t div 100 mod 10),
      digit_char (year t div 10 mod 10), digit_char (year t mod 10), CHR ''-'',
      digit_char (month t div 10 mod 10), digit_char (month t mod 10), CHR ''-'',
      digit_char (day t div 10 mod 10), digit_char (day t mod 10)]"

subsection \<open>Eligibility\<close>

text \<open>
  \<^verbatim>\<open>can_donate(last_donation_date)\<close>. \<^verbatim>\<open>not last_donation_date\<close> holds for
  \<^verbatim>\<open>None\<close> and for the empty string; the \<^verbatim>\<open>except\<close> clause turns a failed parse
  into \<^verbatim>\<open>True\<close>.
\<close>

definition can_donate :: "datetime \<Rightarrow> string option \<Rightarrow> bool" where
  "can_donate now last_donation_date =
     (case last_donation_date of
        None \<Rightarrow> True
      | Some s \<Rightarrow>
          if s = [] then True
          else (case strptime s of
                  Some t \<Rightarrow> timedelta_days now t \<ge> 56
                | None \<Rightarrow> True))"

text \<open>The fields of a donor record that the matching and ledger code reads or writes.
  \<^verbatim>\<open>donor_register\<close> writes every one of them, so the defaults of the \<^verbatim>\<open>.get\<close> calls
  at the read sites are not part of the record.\<close>

record donor =
  donor_id :: string
  age :: int
  blood_group :: string
  city :: string
  state :: string
  available :: bool
  status :: string
  total_donations :: int
  last_donation :: "string option"

definition calculate_donor_eligibility :: "datetime \<Rightarrow> donor \<Rightarrow> int" where
  "calculate_donor_eligibility now d =
     (let score = 100;
          score = (if 25 \<le> age d \<and> age d \<le> 45 then score + 10
                   else if age d < 18 \<or> age d > 65 then score - 50
                   else score);
          score = (if \<not> available d then score - 100 else score);
          score = (case last_donation d of
                     None \<Rightarrow> score + 10
                   | Some s \<Rightarrow>
                       if s = [] then score + 10
                       else (case strptime s of
                               Some t \<Rightarrow> if timedelta_days now t > 90 then score + 5 else score
                             | None \<Rightarrow> score));
          score = score + min (total_donations d * 2) 20
      in max 0 (min score 150))"

subsection \<open>Matching\<close>

text \<open>\<^verbatim>\<open>str.lower()\<close> on ASCII text, and the substring test \<^verbatim>\<open>needle in hay\<close>.\<close>

definition lower_char :: "char \<Rightarrow> char" where
  "lower_char c = (if CHR ''A'' \<le> c \<and> c \<le> CHR ''Z'' then char_of (of_char c + (32::nat)) else c)"

definition lower :: "string \<Rightarrow> string" where
  "lower s = map lower_char s"

fun startswith :: "string \<Rightarrow> string \<Rightarrow> bool" where
  "startswith hay [] = True"
| "startswith [] (c # cs) = False"
| "startswith (h # hs) (c # cs) = (h = c \<and> startswith hs cs)"

fun contains :: "string \<Rightarrow> string \<Rightarrow> bool" where
  "contains [] needle = (needle = [])"
| "contains (h # hs) needle = (startswith (h # hs) needle \<or> contains hs needle)"

text \<open>
  \<^verbatim>\<open>xs.sort(key=key, reverse=True)\<close>. The interpreter's sort is stable, and for
  \<^verbatim>\<open>reverse=True\<close> it reverses the list, sorts it ascending and stably, and reverses
  the result; \<^const>\<open>sort_key\<close> is the stable ascending sort.
\<close>

definition sort_reverse :: "('a \<Rightarrow> 'k::linorder) \<Rightarrow> 'a list \<Rightarrow> 'a list" where
  "sort_reverse key xs = rev (sort_key key (rev xs))"

text \<open>The sort key \<^verbatim>\<open>x.get('last_donation') or '1900-01-01'\<close>.\<close>

definition last_donation_key :: "donor \<Rightarrow> string" where
  "last_donation_key d =
     (case last_donation d of None \<Rightarrow> ''1900-01-01'' | Some s \<Rightarrow> if s = [] then ''1900-01-01'' else s)"

text \<open>The test that \<^verbatim>\<open>get_compatible_donors\<close> applies to one donor. An absent or empty
  location filters nothing.\<close>

definition donor_matches :: "string list \<Rightarrow> string option \<Rightarrow> donor \<Rightarrow> bool" where
  "donor_matches compatible_blood_groups loc d \<longleftrightarrow>
     blood_group d \<in> set compatible_blood_groups \<and> available d \<and> status d = ''active'' \<and>
     (case loc of
        None \<Rightarrow> True
      | Some l \<Rightarrow>
          if l = [] then True
          else contains (lower (city d)) (lower l) \<or> contains (lower (state d)) (lower l))"

text \<open>\<^verbatim>\<open>donors_db\<close> is a dictionary read in insertion order: an association list.\<close>

definition get_compatible_donors :: "(string \<times> donor) list \<Rightarrow> string \<Rightarrow> string option \<Rightarrow> donor list" where
  "get_compatible_donors all_donors recipient_blood_group loc =
     (let compatible_blood_groups = get_compatible_donor_blood_groups recipient_blood_group;
          compatible_donors = filter (donor_matches compatible_blood_groups loc) (map snd all_donors)
      in sort_reverse last_donation_key compatible_donors)"

record inv_entry =
  units :: int
  donors :: "string list"

text \<open>A blood request. \<^verbatim>\<open>take_from_inventory\<close> writes neither \<^verbatim>\<open>location\<close> nor
  \<^verbatim>\<open>inventory_used\<close>, and \<^verbatim>\<open>request_blood\<close> writes no \<^verbatim>\<open>type\<close>, so these three
  fields may be absent. Patient, hospital and contact texts, the timestamps and the
  \<^verbatim>\<open>remaining_units\<close> that \<^verbatim>\<open>take_from_inventory\<close> stores as 0 are left out: no
  operation reads them.\<close>

record request =
  request_id :: string
  rq_requestor_id :: string
  rq_blood_group :: string
  units_needed :: int
  fulfilled_units :: int
  inventory_used :: "int option"
  rq_status :: string
  location :: "string option"
  urgency :: string
  matched_donors :: "string list"
  rq_type :: "string option"

text \<open>\<^verbatim>\<open>{**donor, 'match_score': ..., 'can_donate_now': ...}\<close>.\<close>

record scored_donor =
  scored :: donor
  match_score :: int
  can_donate_now :: bool

record match_result =
  exact_match_inventory :: int
  compatible_donors :: "scored_donor list"
  total_compatible :: int
  fulfillable :: bool
  remaining_units :: int

text \<open>\<^verbatim>\<open>blood_inventory.get(blood_group, {}).get('units', 0)\<close>.\<close>

definition inventory_units :: "(string \<rightharpoonup> inv_entry) \<Rightarrow> string \<Rightarrow> int" where
  "inventory_units inventory g = (case inventory g of None \<Rightarrow> 0 | Some e \<Rightarrow> units e)"

definition score_donor :: "datetime \<Rightarrow> donor \<Rightarrow> scored_donor" where
  "score_donor now d =
     \<lparr>scored = d, match_score = calculate_donor_eligibility now d,
      can_donate_now = can_donate now (last_donation d)\<rparr>"

definition match_blood_request ::
  "datetime \<Rightarrow> (string \<times> donor) list \<Rightarrow> (string \<rightharpoonup> inv_entry) \<Rightarrow> request \<Rightarrow> match_result" where
  "match_blood_request now all_donors inventory request_data =
     (let compatible = get_compatible_donors all_donors (rq_blood_group request_data)
                         (case location request_data of None \<Rightarrow> Some [] | Some l \<Rightarrow> Some l);
          scored_donors = sort_reverse match_score (map (score_donor now) compatible);
          inventory_available = inventory_units inventory (rq_blood_group request_data);
          remaining = units_needed request_data - fulfilled_units request_data
      in \<lparr>exact_match_inventory = inventory_available,
          compatible_donors = take 10 scored_donors,
          total_compatible = int (length scored_donors),
          fulfillable = (inventory_available \<ge> remaining \<or> int (length scored_donors) > 0),
          remaining_units = remaining\<rparr>)"

subsection \<open>The stores\<close>

record requestor =
  requestor_id :: string
  total_requests :: int

text \<open>A donation record. \<^verbatim>\<open>record_donation\<close> writes no \<^verbatim>\<open>status\<close>, and only the
  request-bound routes write \<^verbatim>\<open>request_id\<close> and \<^verbatim>\<open>assignment_id\<close>.\<close>

record donation =
  donation_id :: string
  dn_donor_id :: string
  dn_blood_group :: string
  dn_units :: int
  dn_request_id :: "string option"
  dn_assignment_id :: "string option"
  dn_requestor_id :: "string option"
  dn_status :: "string option"

record assignment =
  assignment_id :: string
  as_donor_id :: string
  as_request_id :: string
  units_offered :: int
  as_status :: string
  units_donated :: "int option"

text \<open>The module's global dictionaries. Only \<^verbatim>\<open>donors_db\<close> is read in iteration order
  by the code modelled here, so it alone is an association list.\<close>

record db =
  donors_db :: "(string \<times> donor) list"
  requestors_db :: "string \<rightharpoonup> requestor"
  blood_requests_db :: "string \<rightharpoonup> request"
  donations_db :: "string \<rightharpoonup> donation"
  donor_request_assignments :: "string \<rightharpoonup> assignment"
  blood_inventory :: "string \<rightharpoonup> inv_entry"

text \<open>\<^verbatim>\<open>d[k] = v\<close> on an insertion-ordered dictionary: an existing key keeps its place.\<close>

fun dict_set :: "'k \<Rightarrow> 'v \<Rightarrow> ('k \<times> 'v) list \<Rightarrow> ('k \<times> 'v) list" where
  "dict_set k v [] = [(k, v)]"
| "dict_set k v (p # ps) = (if fst p = k then (k, v) # ps else p # dict_set k v ps)"

text \<open>Each constructor is one of the messages the routes flash before they redirect;
  \<open>KeyError\<close> is the uncaught exception of a subscript on a missing key.\<close>

datatype error =
    DonorNotFound
  | RequestorNotFound
  | RequestNotFound
  | AssignmentNotFound
  | InvalidDonorOrRequest
  | InvalidRequestOrAssignment
  | InvalidData
  | AgeOutOfRange
  | WeightTooLow
  | MustWait56Days
  | UnitsOutOfRange
  | InvalidBloodGroup
  | UnitsNotPositive
  | InsufficientInventory
  | NotEnoughInventory
  | KeyError

text \<open>A route returns what it reported together with the stores as it left them.\<close>

datatype outcome = Done | Failed error

definition update_inventory ::
  "string \<Rightarrow> int \<Rightarrow> string \<Rightarrow> (string \<rightharpoonup> inv_entry) \<Rightarrow> (string \<rightharpoonup> inv_entry)" where
  "update_inventory bg n operation inventory =
     (case inventory bg of
        None \<Rightarrow> inventory
      | Some e \<Rightarrow>
          if operation = ''add'' then inventory(bg \<mapsto> e\<lparr>units := units e + n\<rparr>)
          else if operation = ''remove'' then inventory(bg \<mapsto> e\<lparr>units := max 0 (units e - n)\<rparr>)
          else inventory)"

text \<open>\<^verbatim>\<open>if donor_id not in inventory[bg]['donors']: inventory[bg]['donors'].append(donor_id)\<close>
  on an entry.\<close>

definition add_inventory_donor :: "string \<Rightarrow> inv_entry \<Rightarrow> inv_entry" where
  "add_inventory_donor did e = (if did \<in> set (donors e) then e else e\<lparr>donors := donors e @ [did]\<rparr>)"

subsection \<open>Donor routes\<close>

definition donor_register ::
  "string \<Rightarrow> int \<Rightarrow> string \<Rightarrow> real \<Rightarrow> string \<Rightarrow> string \<Rightarrow> db \<Rightarrow> outcome \<times> db" where
  "donor_register new_id form_age form_blood_group form_weight form_city form_state s =
     (if form_age < 18 \<or> form_age > 65 then (Failed AgeOutOfRange, s)
      else if form_weight < 50 then (Failed WeightTooLow, s)
      else
        (let donor_data = \<lparr>donor_id = new_id, age = form_age, blood_group = form_blood_group,
                           city = form_city, state = form_state, available = True,
                           status = ''active'', total_donations = 0, last_donation = None\<rparr>;
             e = (case blood_inventory s form_blood_group of
                    None \<Rightarrow> \<lparr>units = 0, donors = []\<rparr>
                  | Some e \<Rightarrow> e)
         in (Done, s\<lparr>donors_db := dict_set new_id donor_data (donors_db s),
                     blood_inventory :=
                       (blood_inventory s)(form_blood_group \<mapsto> add_inventory_donor new_id e)\<rparr>)))"

text \<open>\<^verbatim>\<open>donor_update\<close>: the checkbox \<^verbatim>\<open>available\<close> is read as a truth value, an absent
  city or state keeps the stored one.\<close>

definition donor_update :: "string \<Rightarrow> bool \<Rightarrow> string option \<Rightarrow> string option \<Rightarrow> db \<Rightarrow> outcome \<times> db" where
  "donor_update did form_available form_city form_state s =
     (case map_of (donors_db s) did of
        None \<Rightarrow> (Failed DonorNotFound, s)
      | Some d \<Rightarrow>
          (Done, s\<lparr>donors_db :=
             dict_set did
               (d\<lparr>available := form_available,
                  city := (case form_city of None \<Rightarrow> city d | Some c \<Rightarrow> c),
                  state := (case form_state of None \<Rightarrow> state d | Some c \<Rightarrow> c)\<rparr>)
               (donors_db s)\<rparr>))"

definition record_donation :: "datetime \<Rightarrow> string \<Rightarrow> string \<Rightarrow> int option \<Rightarrow> db \<Rightarrow> outcome \<times> db" where
  "record_donation now did new_donation_id form_units s =
     (case map_of (donors_db s) did of
        None \<Rightarrow> (Failed DonorNotFound, s)
      | Some d \<Rightarrow>
          if \<not> can_donate now (last_donation d) then (Failed MustWait56Days, s)
          else
            (let n = (case form_units of None \<Rightarrow> 1 | Some u \<Rightarrow> u);
                 donation_data = \<lparr>donation_id = new_donation_id, dn_donor_id = did,
                                  dn_blood_group = blood_group d, dn_units = n,
                                  dn_request_id = None, dn_assignment_id = None,
                                  dn_requestor_id = None, dn_status = None\<rparr>;
                 d' = d\<lparr>last_donation := Some (strftime_date now),
                        total_donations := total_donations d + 1\<rparr>
             in (Done, s\<lparr>donations_db := (donations_db s)(new_donation_id \<mapsto> donation_data),
                         donors_db := dict_set did d' (donors_db s),
                         blood_inventory := update_inventory (blood_group d) n ''add'' (blood_inventory s)\<rparr>)))"

text \<open>\<^verbatim>\<open>donate_to_inventory\<close>, the POST branch. The subscript
  \<^verbatim>\<open>blood_inventory[blood_group]\<close> after \<^verbatim>\<open>update_inventory\<close> raises when the donor's
  group has no inventory entry; the donation and the donor's counters are stored by then.\<close>

definition donate_to_inventory :: "datetime \<Rightarrow> string \<Rightarrow> string \<Rightarrow> int option \<Rightarrow> db \<Rightarrow> outcome \<times> db" where
  "donate_to_inventory now did new_donation_id form_units s =
     (case map_of (donors_db s) did of
        None \<Rightarrow> (Failed DonorNotFound, s)
      | Some d \<Rightarrow>
          if \<not> can_donate now (last_donation d) then (Failed MustWait56Days, s)
          else
            (let bg = blood_group d;
                 n = (case form_units of None \<Rightarrow> 1 | Some u \<Rightarrow> u)
             in if n \<le> 0 \<or> n > 50 then (Failed UnitsOutOfRange, s)
                else
                  (let donation_data = \<lparr>donation_id = new_donation_id, dn_donor_id = did,
                                        dn_blood_group = bg, dn_units = n,
                                        dn_request_id = None, dn_assignment_id = None,
                                        dn_requestor_id = Some ''inventory'',
                                        dn_status = Some ''completed''\<rparr>;
                       d' = d\<lparr>last_donation := Some (strftime_date now),
                              total_donations := total_donations d + 1\<rparr>;
                       inventory1 = update_inventory bg n ''add'' (blood_inventory s);
                       s1 = s\<lparr>donations_db := (donations_db s)(new_donation_id \<mapsto> donation_data),
                              donors_db := dict_set did d' (donors_db s),
                              blood_inventory := inventory1\<rparr>
                   in (case inventory1 bg of
                         None \<Rightarrow> (Failed KeyError, s1)
                       | Some e \<Rightarrow>
                           (Done, s1\<lparr>blood_inventory := inventory1(bg \<mapsto> add_inventory_donor did e)\<rparr>)))))"

definition donor_accept_request :: "string \<Rightarrow> string \<Rightarrow> string \<Rightarrow> int option \<Rightarrow> db \<Rightarrow> outcome \<times> db" where
  "donor_accept_request did rid new_assignment_id form_units_offered s =
     (if map_of (donors_db s) did = None \<or> blood_requests_db s rid = None
      then (Failed InvalidDonorOrRequest, s)
      else
        (let assignment_data = \<lparr>assignment_id = new_assignment_id, as_donor_id = did,
                                as_request_id = rid,
                                units_offered = (case form_units_offered of None \<Rightarrow> 1 | Some u \<Rightarrow> u),
                                as_status = ''accepted'', units_donated = None\<rparr>
         in (Done, s\<lparr>donor_request_assignments :=
                       (donor_request_assignments s)(new_assignment_id \<mapsto> assignment_data)\<rparr>)))"

text \<open>
  \<^verbatim>\<open>donor_confirm_donation\<close>. The route looks up the assignment, then the donor and the
  request it names, and performs no other check before it writes.
\<close>

definition donor_confirm_donation :: "datetime \<Rightarrow> string \<Rightarrow> string \<Rightarrow> int option \<Rightarrow> db \<Rightarrow> outcome \<times> db" where
  "donor_confirm_donation now aid new_donation_id form_units_donated s =
     (case donor_request_assignments s aid of
        None \<Rightarrow> (Failed AssignmentNotFound, s)
      | Some a \<Rightarrow>
          (case map_of (donors_db s) (as_donor_id a) of
             None \<Rightarrow> (Failed InvalidData, s)
           | Some d \<Rightarrow>
               (case blood_requests_db s (as_request_id a) of
                  None \<Rightarrow> (Failed InvalidData, s)
                | Some request_data \<Rightarrow>
                    (let n = (case form_units_donated of None \<Rightarrow> units_offered a | Some u \<Rightarrow> u);
                         a' = a\<lparr>as_status := ''completed'', units_donated := Some n\<rparr>;
                         fulfilled = fulfilled_units request_data + n;
                         remaining = units_needed request_data - fulfilled;
                         request1 = request_data\<lparr>fulfilled_units := fulfilled,
                                      rq_status := (if remaining \<le> 0 then ''fulfilled'' else ''partial'')\<rparr>;
                         bg = blood_group d;
                         inventory' = (case blood_inventory s bg of
                                         None \<Rightarrow> blood_inventory s
                                       | Some e \<Rightarrow>
                                           (blood_inventory s)(bg \<mapsto> e\<lparr>units := max 0 (units e - n)\<rparr>));
                         request2 = (case blood_inventory s bg of
                                       None \<Rightarrow> request1
                                     | Some e \<Rightarrow>
                                         request1\<lparr>inventory_used :=
                                           Some ((case inventory_used request1 of None \<Rightarrow> 0 | Some u \<Rightarrow> u) + n)\<rparr>);
                         d' = d\<lparr>last_donation := Some (strftime_date now),
                                total_donations := total_donations d + 1\<rparr>;
                         donation_data = \<lparr>donation_id = new_donation_id, dn_donor_id = as_donor_id a,
                                          dn_blood_group = blood_group d, dn_units = n,
                                          dn_request_id = Some (as_request_id a),
                                          dn_assignment_id = Some aid,
                                          dn_requestor_id = None, dn_status = Some ''completed''\<rparr>
                     in (Done, s\<lparr>donor_request_assignments := (donor_request_assignments s)(aid \<mapsto> a'),
                                 blood_requests_db := (blood_requests_db s)(as_request_id a \<mapsto> request2),
                                 blood_inventory := inventory',
                                 donors_db := dict_set (as_donor_id a) d' (donors_db s),
                                 donations_db := (donations_db s)(new_donation_id \<mapsto> donation_data)\<rparr>)))))"

definition api_update_inventory_for_donor :: "string \<Rightarrow> db \<Rightarrow> outcome \<times> db" where
  "api_update_inventory_for_donor did s =
     (case map_of (donors_db s) did of
        None \<Rightarrow> (Failed DonorNotFound, s)
      | Some d \<Rightarrow>
          (case blood_inventory s (blood_group d) of
             None \<Rightarrow> (Failed KeyError, s)
           | Some e \<Rightarrow>
               (Done, s\<lparr>blood_inventory :=
                          (blood_inventory s)(blood_group d \<mapsto> add_inventory_donor did e)\<rparr>)))"

subsection \<open>Requestor and request routes\<close>

definition requestor_register :: "string \<Rightarrow> db \<Rightarrow> outcome \<times> db" where
  "requestor_register new_id s =
     (Done, s\<lparr>requestors_db :=
                (requestors_db s)(new_id \<mapsto> \<lparr>requestor_id = new_id, total_requests = 0\<rparr>)\<rparr>)"

text \<open>\<^verbatim>\<open>requestor_confirm_donor\<close>: an acknowledgement on the assignment, no units move.\<close>

definition requestor_confirm_donor :: "string \<Rightarrow> string \<Rightarrow> db \<Rightarrow> outcome \<times> db" where
  "requestor_confirm_donor rqid aid s =
     (case donor_request_assignments s aid of
        None \<Rightarrow> (Failed AssignmentNotFound, s)
      | Some a \<Rightarrow>
          if requestors_db s rqid = None \<or> blood_requests_db s (as_request_id a) = None
             \<or> map_of (donors_db s) (as_donor_id a) = None
          then (Failed InvalidData, s)
          else (Done, s\<lparr>donor_request_assignments :=
                          (donor_request_assignments s)(aid \<mapsto> a\<lparr>as_status := ''requestor_confirmed''\<rparr>)\<rparr>))"

definition confirm_donor_for_request :: "string \<Rightarrow> string \<Rightarrow> db \<Rightarrow> outcome \<times> db" where
  "confirm_donor_for_request rid aid s =
     (case donor_request_assignments s aid of
        None \<Rightarrow> (Failed InvalidRequestOrAssignment, s)
      | Some a \<Rightarrow>
          if blood_requests_db s rid = None then (Failed InvalidRequestOrAssignment, s)
          else (Done, s\<lparr>donor_request_assignments :=
                          (donor_request_assignments s)(aid \<mapsto> a\<lparr>as_status := ''confirmed_by_requestor''\<rparr>)\<rparr>))"

text \<open>
  \<^verbatim>\<open>take_from_inventory\<close>, the POST branch. The form's blood group is absent or a string,
  its units default to 1.
\<close>

definition take_from_inventory ::
  "string \<Rightarrow> string option \<Rightarrow> int option \<Rightarrow> string \<Rightarrow> string \<Rightarrow> db \<Rightarrow> outcome \<times> db" where
  "take_from_inventory rqid form_blood_group form_units_needed new_request_id new_donation_id s =
     (case requestors_db s rqid of
        None \<Rightarrow> (Failed RequestorNotFound, s)
      | Some rq \<Rightarrow>
          (case form_blood_group of
             None \<Rightarrow> (Failed InvalidBloodGroup, s)
           | Some bg \<Rightarrow>
               (case blood_inventory s bg of
                  None \<Rightarrow> (Failed InvalidBloodGroup, s)
                | Some e \<Rightarrow>
                    (let n = (case form_units_needed of None \<Rightarrow> 1 | Some u \<Rightarrow> u)
                     in if n \<le> 0 then (Failed UnitsNotPositive, s)
                        else if units e < n then (Failed InsufficientInventory, s)
                        else
                          (let blood_request_data =
                                 \<lparr>request_id = new_request_id, rq_requestor_id = rqid,
                                  rq_blood_group = bg, units_needed = n, fulfilled_units = n,
                                  inventory_used = None, rq_status = ''fulfilled'',
                                  location = None, urgency = ''normal'', matched_donors = [],
                                  rq_type = Some ''inventory_withdrawal''\<rparr>;
                               donation_data =
                                 \<lparr>donation_id = new_donation_id, dn_donor_id = ''INVENTORY'',
                                  dn_blood_group = bg, dn_units = n,
                                  dn_request_id = Some new_request_id, dn_assignment_id = None,
                                  dn_requestor_id = None, dn_status = Some ''completed''\<rparr>
                           in (Done,
                               s\<lparr>blood_requests_db := (blood_requests_db s)(new_request_id \<mapsto> blood_request_data),
                                 blood_inventory := update_inventory bg n ''remove'' (blood_inventory s),
                                 requestors_db := (requestors_db s)(rqid \<mapsto> rq\<lparr>total_requests := total_requests rq + 1\<rparr>),
                                 donations_db := (donations_db s)(new_donation_id \<mapsto> donation_data)\<rparr>))))))"

text \<open>
  \<^verbatim>\<open>request_blood\<close>, the POST branch. The units are taken from the form as they come;
  the requestor id defaults to \<^verbatim>\<open>GUEST\<close>, city to the empty string, urgency to
  \<^verbatim>\<open>normal\<close>.
\<close>

definition request_blood ::
  "datetime \<Rightarrow> string \<Rightarrow> string option \<Rightarrow> string \<Rightarrow> int \<Rightarrow> string option \<Rightarrow> string option \<Rightarrow> db
     \<Rightarrow> outcome \<times> db" where
  "request_blood now new_request_id form_requestor_id form_blood_group form_units_needed
       form_city form_urgency s =
     (let rqid = (case form_requestor_id of None \<Rightarrow> ''GUEST'' | Some r \<Rightarrow> r);
          request_data =
            \<lparr>request_id = new_request_id, rq_requestor_id = rqid,
             rq_blood_group = form_blood_group, units_needed = form_units_needed,
             fulfilled_units = 0, inventory_used = Some 0, rq_status = ''pending'',
             location = Some (case form_city of None \<Rightarrow> [] | Some c \<Rightarrow> c),
             urgency = (case form_urgency of None \<Rightarrow> ''normal'' | Some u \<Rightarrow> u),
             matched_donors = [], rq_type = None\<rparr>;
          requestors' = (case requestors_db s rqid of
                           None \<Rightarrow> requestors_db s
                         | Some rq \<Rightarrow> (requestors_db s)(rqid \<mapsto> rq\<lparr>total_requests := total_requests rq + 1\<rparr>));
          match_results = match_blood_request now (donors_db s) (blood_inventory s) request_data;
          request_data' = request_data\<lparr>matched_donors :=
                            map (\<lambda>m. donor_id (scored m)) (compatible_donors match_results)\<rparr>
      in (Done, s\<lparr>blood_requests_db := (blood_requests_db s)(new_request_id \<mapsto> request_data'),
                  requestors_db := requestors'\<rparr>))"

text \<open>\<^verbatim>\<open>use_inventory_for_request\<close>: the form's units default to 0.\<close>

definition use_inventory_for_request :: "string \<Rightarrow> int option \<Rightarrow> db \<Rightarrow> outcome \<times> db" where
  "use_inventory_for_request rid form_units_from_inventory s =
     (case blood_requests_db s rid of
        None \<Rightarrow> (Failed RequestNotFound, s)
      | Some request_data \<Rightarrow>
          (let bg = rq_blood_group request_data;
               n = (case form_units_from_inventory of None \<Rightarrow> 0 | Some u \<Rightarrow> u);
               available_units = inventory_units (blood_inventory s) bg
           in if n > available_units then (Failed NotEnoughInventory, s)
              else
                (let fulfilled = fulfilled_units request_data + n;
                     used = (case inventory_used request_data of None \<Rightarrow> 0 | Some u \<Rightarrow> u) + n;
                     remaining = units_needed request_data - fulfilled;
                     request_data' = request_data\<lparr>fulfilled_units := fulfilled,
                                       inventory_used := Some used,
                                       rq_status := (if remaining \<le> 0 then ''fulfilled'' else ''partial'')\<rparr>
                 in (Done, s\<lparr>blood_inventory := update_inventory bg n ''remove'' (blood_inventory s),
                             blood_requests_db := (blood_requests_db s)(rid \<mapsto> request_data')\<rparr>))))"

text \<open>\<^verbatim>\<open>fulfill_request\<close>, the legacy route: the form's units default to 0.\<close>

definition fulfill_request :: "string \<Rightarrow> int option \<Rightarrow> db \<Rightarrow> outcome \<times> db" where
  "fulfill_request rid form_units_fulfilled s =
     (case blood_requests_db s rid of
        None \<Rightarrow> (Failed RequestNotFound, s)
      | Some request_data \<Rightarrow>
          (let n = (case form_units_fulfilled of None \<Rightarrow> 0 | Some u \<Rightarrow> u);
               fulfilled = fulfilled_units request_data + n;
               request_data' = request_data\<lparr>fulfilled_units := fulfilled,
                                 rq_status := (if fulfilled \<ge> units_needed request_data
                                               then ''fulfilled'' else ''partial'')\<rparr>
           in (Done, s\<lparr>blood_requests_db := (blood_requests_db s)(rid \<mapsto> request_data'),
                       blood_inventory :=
                         update_inventory (rq_blood_group request_data) n ''remove'' (blood_inventory s)\<rparr>)))"

subsection \<open>Start-up state\<close>

text \<open>\<^verbatim>\<open>DEFAULT_INVENTORY\<close>, the inventory when no data file exists.\<close>

definition DEFAULT_INVENTORY :: "string \<rightharpoonup> inv_entry" where
  "DEFAULT_INVENTORY =
     map_of
       [(''A+'', \<lparr>units = 50, donors = []\<rparr>),
        (''A-'', \<lparr>units = 30, donors = []\<rparr>),
        (''B+'', \<lparr>units = 45, donors = []\<rparr>),
        (''B-'', \<lparr>units = 25, donors = []\<rparr>),
        (''AB+'', \<lparr>units = 20, donors = []\<rparr>),
        (''AB-'', \<lparr>units = 15, donors = []\<rparr>),
        (''O+'', \<lparr>units = 60, donors = []\<rparr>),
        (''O-'', \<lparr>units = 40, donors = []\<rparr>)]"

definition startup_db :: db where
  "startup_db =
     \<lparr>donors_db = [], requestors_db = Map.empty, blood_requests_db = Map.empty,
      donations_db = Map.empty, donor_request_assignments = Map.empty,
      blood_inventory = DEFAULT_INVENTORY\<rparr>"

definition sample_donors :: "donor list" where
  "sample_donors =
     [\<lparr>donor_id = ''DON-A1B2C3D4'', age = 28, blood_group = ''O+'', city = ''Mumbai'',
       state = ''Maharashtra'', available = True, status = ''active'', total_donations = 5,
       last_donation = Some ''2024-12-01''\<rparr>,
      \<lparr>donor_id = ''DON-E5F6G7H8'', age = 32, blood_group = ''A+'', city = ''Delhi'',
       state = ''Delhi'', available = True, status = ''active'', total_donations = 3,
       last_donation = Some ''2025-01-10''\<rparr>,
      \<lparr>donor_id = ''DON-A2B3C4D5'', age = 26, blood_group = ''A-'', city = ''Mumbai'',
       state = ''Maharashtra'', available = True, status = ''active'', total_donations = 2,
       last_donation = None\<rparr>,
      \<lparr>donor_id = ''DON-I9J0K1L2'', age = 25, blood_group = ''B-'', city = ''Bangalore'',
       state = ''Karnataka'', available = True, status = ''active'', total_donations = 2,
       last_donation = None\<rparr>,
      \<lparr>donor_id = ''DON-M3N4O5P6'', age = 29, blood_group = ''O-'', city = ''Chennai'',
       state = ''Tamil Nadu'', available = True, status = ''active'', total_donations = 8,
       last_donation = Some ''2025-01-15''\<rparr>,
      \<lparr>donor_id = ''DON-Q7R8S9T0'', age = 35, blood_group = ''AB+'', city = ''Pune'',
       state = ''Maharashtra'', available = True, status = ''active'', total_donations = 4,
       last_donation = Some ''2024-11-20''\<rparr>]"

definition sample_requestor :: requestor where
  "sample_requestor = \<lparr>requestor_id = ''REQ-X1Y2Z3A4'', total_requests = 2\<rparr>"

definition sample_request :: request where
  "sample_request =
     \<lparr>request_id = ''BR-B5C6D7E8'', rq_requestor_id = ''REQ-X1Y2Z3A4'', rq_blood_group = ''A+'',
      units_needed = 5, fulfilled_units = 0, inventory_used = Some 0, rq_status = ''pending'',
      location = Some ''Hyderabad'', urgency = ''high'',
      matched_donors = [''DON-E5F6G7H8'', ''DON-A2B3C4D5'', ''DON-A1B2C3D4'', ''DON-M3N4O5P6''],
      rq_type = None\<rparr>"

text \<open>One turn of the loop over the sample donors in \<^verbatim>\<open>init_sample_data\<close>; the
  subscript on the inventory raises for a group without an entry.\<close>

definition add_sample_donor :: "donor \<Rightarrow> db \<Rightarrow> db option" where
  "add_sample_donor d s =
     (case blood_inventory s (blood_group d) of
        None \<Rightarrow> None
      | Some e \<Rightarrow>
          Some (s\<lparr>donors_db := dict_set (donor_id d) d (donors_db s),
                  blood_inventory :=
                    (blood_inventory s)(blood_group d \<mapsto> e\<lparr>donors := donors e @ [donor_id d]\<rparr>)\<rparr>))"

fun add_sample_donors :: "donor list \<Rightarrow> db \<Rightarrow> db option" where
  "add_sample_donors [] s = Some s"
| "add_sample_donors (d # ds) s =
     (case add_sample_donor d s of None \<Rightarrow> None | Some s' \<Rightarrow> add_sample_donors ds s')"

text \<open>\<^verbatim>\<open>init_sample_data\<close>: nothing is done when a store already holds data.\<close>

definition init_sample_data :: "db \<Rightarrow> db option" where
  "init_sample_data s =
     (if donors_db s \<noteq> [] \<or> requestors_db s \<noteq> Map.empty \<or> blood_requests_db s \<noteq> Map.empty
      then Some s
      else (case add_sample_donors sample_donors s of
              None \<Rightarrow> None
            | Some s' \<Rightarrow>
                Some (s'\<lparr>requestors_db := (requestors_db s')(requestor_id sample_requestor \<mapsto> sample_requestor),
                         blood_requests_db := (blood_requests_db s')(request_id sample_request \<mapsto> sample_request)\<rparr>)))"

text \<open>The stores after the module has loaded without data files.\<close>

definition initial_db :: db where
  "initial_db = (case init_sample_data startup_db of None \<Rightarrow> startup_db | Some s \<Rightarrow> s)"

subsection \<open>Runs\<close>

text \<open>One value per state-changing route, with the form fields and fresh identifiers it takes.\<close>

datatype op =
    DonorRegister string int string real string string
  | DonorUpdate string bool "string option" "string option"
  | RecordDonation string string "int option"
  | DonateToInventory string string "int option"
  | DonorAcceptRequest string string string "int option"
  | DonorConfirmDonation string string "int option"
  | ApiUpdateInventoryForDonor string
  | RequestorRegister string
  | RequestorConfirmDonor string string
  | ConfirmDonorForRequest string string
  | TakeFromInventory string "string option" "int option" string string
  | RequestBlood string "string option" string int "string option" "string option"
  | UseInventoryForRequest string "int option"
  | FulfillRequest string "int option"

fun run :: "datetime \<Rightarrow> op \<Rightarrow> db \<Rightarrow> outcome \<times> db" where
  "run now (DonorRegister i a bg w c st) s = donor_register i a bg w c st s"
| "run now (DonorUpdate i av c st) s = donor_update i av c st s"
| "run now (RecordDonation i dn u) s = record_donation now i dn u s"
| "run now (DonateToInventory i dn u) s = donate_to_inventory now i dn u s"
| "run now (DonorAcceptRequest i r a u) s = donor_accept_request i r a u s"
| "run now (DonorConfirmDonation a dn u) s = donor_confirm_donation now a dn u s"
| "run now (ApiUpdateInventoryForDonor i) s = api_update_inventory_for_donor i s"
| "run now (RequestorRegister i) s = requestor_register i s"
| "run now (RequestorConfirmDonor rq a) s = requestor_confirm_donor rq a s"
| "run now (ConfirmDonorForRequest r a) s = confirm_donor_for_request r a s"
| "run now (TakeFromInventory rq bg u r dn) s = take_from_inventory rq bg u r dn s"
| "run now (RequestBlood r rq bg u c ur) s = request_blood now r rq bg u c ur s"
| "run now (UseInventoryForRequest r u) s = use_inventory_for_request r u s"
| "run now (FulfillRequest r u) s = fulfill_request r u s"

text \<open>The unit amounts a caller supplies with an operation are all non-negative.\<close>

definition opt_nonneg :: "int option \<Rightarrow> bool" where
  "opt_nonneg u = (case u of None \<Rightarrow> True | Some n \<Rightarrow> 0 \<le> n)"

fun units_nonneg :: "op \<Rightarrow> bool" where
  "units_nonneg (RecordDonation i dn u) = opt_nonneg u"
| "units_nonneg (DonateToInventory i dn u) = opt_nonneg u"
| "units_nonneg (DonorAcceptRequest i r a u) = opt_nonneg u"
| "units_nonneg (DonorConfirmDonation a dn u) = opt_nonneg u"
| "units_nonneg (TakeFromInventory rq bg u r dn) = opt_nonneg u"
| "units_nonneg (RequestBlood r rq bg u c ur) = (0 \<le> u)"
| "units_nonneg (UseInventoryForRequest r u) = opt_nonneg u"
| "units_nonneg (FulfillRequest r u) = opt_nonneg u"
| "units_nonneg _ = True"

text \<open>A run is a list of operations, each with the clock reading at which it is served,
  applied from the left; whatever a route reports, the stores it leaves are the next state.\<close>

fun run_all :: "(datetime \<times> op) list \<Rightarrow> db \<Rightarrow> db" where
  "run_all [] s = s"
| "run_all ((now, x) # xs) s = run_all xs (snd (run now x s))"

subsection \<open>Matching in the DynamoDB variant\<close>

text \<open>
  \<^verbatim>\<open>app_aws.py\<close> reads donors and inventory as the lists of items that \<^verbatim>\<open>db_scan\<close>
  returns. Its \<^verbatim>\<open>get_compatible_donors\<close> filters and sorts the scanned donors as above;
  its \<^verbatim>\<open>match_blood_request\<close> builds a dictionary from blood group to units out of the
  inventory items, a later item replacing an earlier one of the same group, and reads the
  request's group there with default 0. An inventory item is taken with the two fields the
  route reads.
\<close>

record inventory_item =
  item_blood_group :: string
  item_units :: int

definition get_compatible_donors_aws :: "donor list \<Rightarrow> string \<Rightarrow> string option \<Rightarrow> donor list" where
  "get_compatible_donors_aws scanned recipient_blood_group loc =
     (let compatible_bgs = get_list RECEIVE_COMPATIBILITY recipient_blood_group;
          results = filter (donor_matches compatible_bgs loc) scanned
      in sort_reverse last_donation_key results)"

definition inventory_map :: "inventory_item list \<Rightarrow> (string \<rightharpoonup> int)" where
  "inventory_map inventory_items =
     foldl (\<lambda>m i. m(item_blood_group i \<mapsto> item_units i)) Map.empty inventory_items"

definition match_blood_request_aws ::
  "datetime \<Rightarrow> donor list \<Rightarrow> inventory_item list \<Rightarrow> request \<Rightarrow> match_result" where
  "match_blood_request_aws now scanned inventory_items request_data =
     (let compatible = get_compatible_donors_aws scanned (rq_blood_group request_data)
                         (case location request_data of None \<Rightarrow> Some [] | Some l \<Rightarrow> Some l);
          scored_list = sort_reverse match_score (map (score_donor now) compatible);
          inventory_available =
            (case inventory_map inventory_items (rq_blood_group request_data) of
               None \<Rightarrow> 0 | Some u \<Rightarrow> u);
          remaining = units_needed request_data - fulfilled_units request_data
      in \<lparr>exact_match_inventory = inventory_available,
          compatible_donors = take 10 scored_list,
          total_compatible = int (length scored_list),
          fulfillable = (inventory_available \<ge> remaining \<or> int (length scored_list) > 0),
          remaining_units = remaining\<rparr>)"

subsection \<open>The score as the specification words it\<close>




subsection \<open>Predicates on the stores\<close>

text \<open>No inventory entry holds a negative number of units.\<close>

definition inventory_ok :: "(string \<rightharpoonup> inv_entry) \<Rightarrow> bool" where
  "inventory_ok inventory \<longleftrightarrow> (\<forall>g e. inventory g = Some e \<longrightarrow> 0 \<le> units e)"

text \<open>The status rule in the specification's words: after a credit the request is
  fulfilled when nothing remains, else partial when some units are fulfilled, else its
  status stays as it was.\<close>

definition claimed_status :: "string \<Rightarrow> int \<Rightarrow> int \<Rightarrow> string" where
  "claimed_status old_status needed fulfilled =
     (if needed - fulfilled \<le> 0 then ''fulfilled''
      else if fulfilled > 0 then ''partial''
      else old_status)"

text \<open>The status rule of the three crediting routes: fulfilled when nothing remains,
  partial otherwise.\<close>

definition credited_status :: "int \<Rightarrow> int \<Rightarrow> string" where
  "credited_status needed fulfilled = (if needed - fulfilled \<le> 0 then ''fulfilled'' else ''partial'')"

text \<open>The invariant of a request: its status is \<^verbatim>\<open>fulfilled\<close> exactly when its
  fulfilled units reach the units needed.\<close>

definition request_invariant :: "request \<Rightarrow> bool" where
  "request_invariant r \<longleftrightarrow> (rq_status r = ''fulfilled'') = (fulfilled_units r \<ge> units_needed r)"

definition requests_ok :: "db \<Rightarrow> bool" where
  "requests_ok s \<longleftrightarrow> (\<forall>rid r. blood_requests_db s rid = Some r \<longrightarrow> request_invariant r)"

fun positive_request :: "op \<Rightarrow> bool" where
  "positive_request (RequestBlood r rq bg u c ur) = (0 < u)"
| "positive_request _ = True"

text \<open>The inventory of the start-up state, with the sample donors entered.\<close>

definition initial_inventory :: "(string \<times> inv_entry) list" where
  "initial_inventory =
     [(''A+'', \<lparr>units = 50, donors = [''DON-E5F6G7H8'']\<rparr>),
      (''A-'', \<lparr>units = 30, donors = [''DON-A2B3C4D5'']\<rparr>),
      (''B+'', \<lparr>units = 45, donors = []\<rparr>),
      (''B-'', \<lparr>units = 25, donors = [''DON-I9J0K1L2'']\<rparr>),
      (''AB+'', \<lparr>units = 20, donors = [''DON-Q7R8S9T0'']\<rparr>),
      (''AB-'', \<lparr>units = 15, donors = []\<rparr>),
      (''O+'', \<lparr>units = 60, donors = [''DON-A1B2C3D4'']\<rparr>),
      (''O-'', \<lparr>units = 40, donors = [''DON-M3N4O5P6'']\<rparr>)]"

text \<open>The start-up state after the sample donor \<^verbatim>\<open>DON-E5F6G7H8\<close> has accepted the
  sample request, offering 3 units.\<close>

definition accepted_db :: db where
  "accepted_db = snd (donor_accept_request ''DON-E5F6G7H8'' ''BR-B5C6D7E8'' ''ASGN-00000001'' (Some 3) initial_db)"

section \<open>Properties\<close>

subsection \<open>Compatibility tables\<close>

text \<open>
  Claim C3. The two tables are mutually consistent: for every pair of the eight blood
  groups, the donor group is among the groups the recipient accepts exactly when the
  recipient group is among the groups the donor may give to. O- is in every recipient's
  accepted set, and the accepted set of AB+ holds all eight groups.
\<close>

theorem tables_consistent:
  "(\<forall>d\<in>set blood_groups. \<forall>r\<in>set blood_groups.
      d \<in> set (get_compatible_donor_blood_groups r) \<longleftrightarrow> r \<in> set (can_donate_to d)) \<and>
   (\<forall>r\<in>set blood_groups. ''O-'' \<in> set (get_compatible_donor_blood_groups r)) \<and>
   set blood_groups \<subseteq> set (get_compatible_donor_blood_groups ''AB+'') \<and>
   card (set blood_groups) = 8"
  by (simp add: blood_groups_def get_compatible_donor_blood_groups_def can_donate_to_def
      get_list_def RECEIVE_COMPATIBILITY_def BLOOD_COMPATIBILITY_def)

theorem tables_consistent_witness:
  "''O-'' \<in> set blood_groups \<and> ''B+'' \<in> set blood_groups \<and>
   ''O-'' \<in> set (get_compatible_donor_blood_groups ''B+'') \<and>
   ''B+'' \<in> set (can_donate_to ''O-'')"
proof -
  have m: "''O-'' \<in> set blood_groups" "''B+'' \<in> set blood_groups"
    by (simp_all add: blood_groups_def)
  from tables_consistent m have "''O-'' \<in> set (get_compatible_donor_blood_groups ''B+'')"
    by blast
  moreover from tables_consistent m
  have "''O-'' \<in> set (get_compatible_donor_blood_groups ''B+'') \<longleftrightarrow> ''B+'' \<in> set (can_donate_to ''O-'')"
    by blast
  ultimately show ?thesis using m by blast
qed

subsection \<open>The 56-day rule\<close>

lemma strptime_midnight:
  "strptime s = Some t \<Longrightarrow>
     hour t = 0 \<and> minute t = 0 \<and> second t = 0 \<and> microsecond t = 0 \<and>
     valid_date (year t) (month t) (day t)"
  by (auto simp add: strptime_def split: option.splits prod.splits if_splits)

lemma strptime_empty: "strptime [] = None"
  by (simp add: strptime_def)

lemma floor_days:
  fixes a r :: int
  assumes "0 \<le> r" "r < 86400000000"
  shows "(a * 86400000000 + r) div 86400000000 = a"
  using assms by simp

text \<open>The days of the difference between a clock reading and a parsed date are the
  difference of the two calendar days, whatever the time of day.\<close>

lemma timedelta_days_ordinal:
  assumes "valid_datetime now" "strptime s = Some t"
  shows "timedelta_days now t = toordinal now - toordinal t"
proof -
  from strptime_midnight[OF assms(2)]
  have t0: "hour t = 0" "minute t = 0" "second t = 0" "microsecond t = 0" by simp_all
  define r where "r = (hour now * 3600 + minute now * 60 + second now) * 1000000 + microsecond now"
  from assms(1) have r: "0 \<le> r" "r < 86400000000"
    unfolding r_def valid_datetime_def by auto
  have "total_microseconds now - total_microseconds t
        = (toordinal now - toordinal t) * 86400000000 + r"
    unfolding total_microseconds_def r_def t0 by (simp add: algebra_simps)
  then show ?thesis
    unfolding timedelta_days_def using floor_days[OF r] by simp
qed

lemmas date_eval = strptime_def parse_dash_def parse_month_def parse_day_def is_digit_def
  digit_value_def valid_date_def days_in_month_def toordinal_def ymd2ord_def
  days_before_year_def days_before_month_def is_leap_def

text \<open>
  Claim C7. \<^const>\<open>can_donate\<close> is true for an absent last donation date and for one
  that does not parse; for a date that parses it is true exactly when at least 56 days lie
  between that date and the clock reading.
\<close>

theorem can_donate_cooldown:
  assumes "valid_datetime now"
  shows "can_donate now None \<and>
         (strptime s = None \<longrightarrow> can_donate now (Some s)) \<and>
         (\<forall>t. strptime s = Some t \<longrightarrow>
              timedelta_days now t = toordinal now - toordinal t \<and>
              (can_donate now (Some s) \<longleftrightarrow> 56 \<le> toordinal now - toordinal t))"
proof -
  have a: "can_donate now None" by (simp add: can_donate_def)
  have b: "strptime s = None \<longrightarrow> can_donate now (Some s)" by (simp add: can_donate_def)
  have c: "timedelta_days now t = toordinal now - toordinal t \<and>
           (can_donate now (Some s) \<longleftrightarrow> 56 \<le> toordinal now - toordinal t)"
    if t: "strptime s = Some t" for t
  proof -
    from t have "s \<noteq> []" using strptime_empty by auto
    with t timedelta_days_ordinal[OF assms t] show ?thesis by (simp add: can_donate_def)
  qed
  from a b c show ?thesis by blast
qed

theorem can_donate_cooldown_witness:
  "valid_datetime \<lparr>year = 2024, month = 4, day = 25, hour = 12, minute = 30, second = 0, microsecond = 0\<rparr> \<and>
   valid_datetime \<lparr>year = 2024, month = 4, day = 26, hour = 0, minute = 0, second = 0, microsecond = 0\<rparr> \<and>
   \<not> can_donate \<lparr>year = 2024, month = 4, day = 25, hour = 12, minute = 30, second = 0, microsecond = 0\<rparr>
        (Some ''2024-03-01'') \<and>
   can_donate \<lparr>year = 2024, month = 4, day = 26, hour = 0, minute = 0, second = 0, microsecond = 0\<rparr>
        (Some ''2024-03-01'') \<and>
   can_donate \<lparr>year = 2024, month = 4, day = 26, hour = 0, minute = 0, second = 0, microsecond = 0\<rparr>
        (Some ''soon'')"
proof -
  let ?a = "\<lparr>year = 2024, month = 4, day = 25, hour = 12, minute = 30, second = 0, microsecond = 0\<rparr>"
  let ?b = "\<lparr>year = 2024, month = 4, day = 26, hour = 0, minute = 0, second = 0, microsecond = 0\<rparr>"
  let ?t = "\<lparr>year = 2024, month = 3, day = 1, hour = 0, minute = 0, second = 0, microsecond = 0\<rparr>"
  have va: "valid_datetime ?a" and vb: "valid_datetime ?b"
    by (simp_all add: valid_datetime_def valid_date_def days_in_month_def)
  have p: "strptime ''2024-03-01'' = Some ?t" by (simp add: date_eval)
  have q: "strptime ''soon'' = None" by (simp add: date_eval)
  have da: "toordinal ?a - toordinal ?t = 55" and db: "toordinal ?b - toordinal ?t = 56"
    by (simp_all add: date_eval)
  from can_donate_cooldown[OF va, of "''2024-03-01''"] p da
  have 1: "\<not> can_donate ?a (Some ''2024-03-01'')" by simp
  from can_donate_cooldown[OF vb, of "''2024-03-01''"] p db
  have 2: "can_donate ?b (Some ''2024-03-01'')" by simp
  from can_donate_cooldown[OF vb, of "''soon''"] q
  have 3: "can_donate ?b (Some ''soon'')" by simp
  from va vb 1 2 3 show ?thesis by blast
qed

text \<open>
  Claim C8 says that \<^const>\<open>can_donate\<close> of \<^verbatim>\<open>2024-01-01\<close> read on 2024-02-26 is
  false. The two dates are 56 days apart, and the code answers true.
\<close>

theorem test_vector_counterexample:
  "can_donate \<lparr>year = 2024, month = 2, day = 26, hour = 0, minute = 0, second = 0, microsecond = 0\<rparr>
     (Some ''2024-01-01'') \<noteq> False"
  by (simp add: can_donate_def date_eval timedelta_days_def total_microseconds_def)

text \<open>
  Claim C8, amended. \<^const>\<open>can_donate\<close> of \<^verbatim>\<open>2024-01-01\<close> is true at every time of
  2024-02-26, the 56th day, and false at every time of 2024-02-25, the 55th.
\<close>

theorem test_vector_amended:
  assumes "0 \<le> h" "h < 24" "0 \<le> mi" "mi < 60" "0 \<le> sec" "sec < 60" "0 \<le> us" "us < 1000000"
  shows "can_donate \<lparr>year = 2024, month = 2, day = 26, hour = h, minute = mi, second = sec, microsecond = us\<rparr>
           (Some ''2024-01-01'') \<and>
         \<not> can_donate \<lparr>year = 2024, month = 2, day = 25, hour = h, minute = mi, second = sec, microsecond = us\<rparr>
           (Some ''2024-01-01'')"
proof -
  let ?a = "\<lparr>year = 2024, month = 2, day = 26, hour = h, minute = mi, second = sec, microsecond = us\<rparr>"
  let ?b = "\<lparr>year = 2024, month = 2, day = 25, hour = h, minute = mi, second = sec, microsecond = us\<rparr>"
  let ?t = "\<lparr>year = 2024, month = 1, day = 1, hour = 0, minute = 0, second = 0, microsecond = 0\<rparr>"
  from assms have va: "valid_datetime ?a" and vb: "valid_datetime ?b"
    by (simp_all add: valid_datetime_def valid_date_def days_in_month_def is_leap_def)
  have p: "strptime ''2024-01-01'' = Some ?t" by (simp add: date_eval)
  have da: "toordinal ?a - toordinal ?t = 56" and db: "toordinal ?b - toordinal ?t = 55"
    by (simp_all add: date_eval)
  from timedelta_days_ordinal[OF va p] timedelta_days_ordinal[OF vb p] p da db
  show ?thesis by (simp add: can_donate_def)
qed

theorem test_vector_amended_witness:
  "can_donate \<lparr>year = 2024, month = 2, day = 26, hour = 23, minute = 59, second = 59, microsecond = 999999\<rparr>
     (Some ''2024-01-01'') \<and>
   \<not> can_donate \<lparr>year = 2024, month = 2, day = 25, hour = 23, minute = 59, second = 59, microsecond = 999999\<rparr>
     (Some ''2024-01-01'')"
  using test_vector_amended[of 23 59 59 999999] by simp

subsection \<open>Eligibility score\<close>








subsection \<open>Matching\<close>






text \<open>The DynamoDB variant computes the same result, on the scanned donors keyed by their
  ids and the inventory dictionary built from the scanned items.\<close>

lemma get_compatible_donors_aws_eq:
  "get_compatible_donors_aws scanned g loc
     = get_compatible_donors (map (\<lambda>d. (donor_id d, d)) scanned) g loc"
  by (simp add: get_compatible_donors_aws_def get_compatible_donors_def
      get_compatible_donor_blood_groups_def comp_def)

lemma match_blood_request_aws_eq:
  "match_blood_request_aws now scanned inventory_items r
     = match_blood_request now (map (\<lambda>d. (donor_id d, d)) scanned)
         (\<lambda>g. map_option (\<lambda>u. \<lparr>units = u, donors = []\<rparr>) (inventory_map inventory_items g)) r"
proof -
  have inv: "inventory_units (\<lambda>g. map_option (\<lambda>u. \<lparr>units = u, donors = []\<rparr>) (inventory_map inventory_items g)) g
             = (case inventory_map inventory_items g of None \<Rightarrow> 0 | Some u \<Rightarrow> u)" for g
    by (simp add: inventory_units_def split: option.splits)
  show ?thesis
    unfolding match_blood_request_aws_def match_blood_request_def get_compatible_donors_aws_eq inv
    by (rule refl)
qed

subsection \<open>Inventory\<close>

lemma map_of_dict_set: "map_of (dict_set k v ps) = (map_of ps)(k \<mapsto> v)"
  by (induction ps) (auto simp add: fun_eq_iff)

lemma inventory_ok_upd:
  "inventory_ok inventory \<Longrightarrow> 0 \<le> units e \<Longrightarrow> inventory_ok (inventory(g \<mapsto> e))"
  by (simp add: inventory_ok_def)

lemma inventory_ok_entry: "inventory_ok inventory \<Longrightarrow> inventory g = Some e \<Longrightarrow> 0 \<le> units e"
  by (simp add: inventory_ok_def)

lemma update_inventory_remove_ok:
  "inventory_ok inventory \<Longrightarrow> inventory_ok (update_inventory bg n ''remove'' inventory)"
  by (auto simp add: update_inventory_def intro: inventory_ok_upd split: option.splits)

lemma update_inventory_add_ok:
  "inventory_ok inventory \<Longrightarrow> 0 \<le> n \<Longrightarrow> inventory_ok (update_inventory bg n ''add'' inventory)"
  by (auto simp add: update_inventory_def intro!: inventory_ok_upd dest: inventory_ok_entry
      split: option.splits)

lemma add_inventory_donor_units [simp]: "units (add_inventory_donor did e) = units e"
  by (simp add: add_inventory_donor_def)

lemma donor_register_ok:
  "inventory_ok (blood_inventory s) \<Longrightarrow>
   inventory_ok (blood_inventory (snd (donor_register i a bg w c st s)))"
  by (auto simp add: donor_register_def Let_def intro!: inventory_ok_upd dest: inventory_ok_entry
      split: option.splits)

lemma donor_update_ok:
  "inventory_ok (blood_inventory s) \<Longrightarrow>
   inventory_ok (blood_inventory (snd (donor_update i av c st s)))"
  by (simp add: donor_update_def split: option.splits)

lemma record_donation_ok:
  "inventory_ok (blood_inventory s) \<Longrightarrow> opt_nonneg u \<Longrightarrow>
   inventory_ok (blood_inventory (snd (record_donation now i dn u s)))"
  by (auto simp add: record_donation_def Let_def opt_nonneg_def intro!: update_inventory_add_ok
      split: option.splits)

lemma donate_to_inventory_ok:
  assumes ok: "inventory_ok (blood_inventory s)"
  shows "inventory_ok (blood_inventory (snd (donate_to_inventory now i dn u s)))"
proof (cases "map_of (donors_db s) i")
  case None
  with ok show ?thesis by (simp add: donate_to_inventory_def)
next
  case (Some d)
  define n where "n = (case u of None \<Rightarrow> 1 | Some v \<Rightarrow> v)"
  define inventory1 where "inventory1 = update_inventory (blood_group d) n ''add'' (blood_inventory s)"
  show ?thesis
  proof (cases "\<not> can_donate now (last_donation d) \<or> n \<le> 0 \<or> n > 50")
    case True
    with ok Some show ?thesis by (auto simp add: donate_to_inventory_def Let_def n_def)
  next
    case False
    then have "0 \<le> n" by simp
    with ok have ok1: "inventory_ok inventory1"
      unfolding inventory1_def by (rule update_inventory_add_ok)
    show ?thesis
    proof (cases "inventory1 (blood_group d)")
      case None
      with False Some ok1 show ?thesis
        by (simp add: donate_to_inventory_def Let_def n_def[symmetric] inventory1_def[symmetric])
    next
      case (Some e)
      from ok1 Some have "0 \<le> units e" by (rule inventory_ok_entry)
      with ok1 have "inventory_ok (inventory1(blood_group d \<mapsto> add_inventory_donor i e))"
        by (simp add: inventory_ok_upd)
      with False \<open>map_of (donors_db s) i = Some d\<close> Some show ?thesis
        by (simp add: donate_to_inventory_def Let_def n_def[symmetric] inventory1_def[symmetric])
    qed
  qed
qed

lemma donor_accept_request_ok:
  "inventory_ok (blood_inventory s) \<Longrightarrow>
   inventory_ok (blood_inventory (snd (donor_accept_request i r a u s)))"
  by (simp add: donor_accept_request_def Let_def)

lemma donor_confirm_donation_inventory:
  "blood_inventory (snd (donor_confirm_donation now a dn u s)) = blood_inventory s \<or>
   (\<exists>bg e n. blood_inventory s bg = Some e \<and>
      blood_inventory (snd (donor_confirm_donation now a dn u s))
        = (blood_inventory s)(bg \<mapsto> e\<lparr>units := max 0 (units e - n)\<rparr>))"
  by (auto simp add: donor_confirm_donation_def Let_def split: option.splits)

lemma donor_confirm_donation_ok:
  assumes "inventory_ok (blood_inventory s)"
  shows "inventory_ok (blood_inventory (snd (donor_confirm_donation now a dn u s)))"
  using donor_confirm_donation_inventory[of now a dn u s] assms
  by (auto intro!: inventory_ok_upd)

lemma api_update_inventory_for_donor_ok:
  "inventory_ok (blood_inventory s) \<Longrightarrow>
   inventory_ok (blood_inventory (snd (api_update_inventory_for_donor i s)))"
  by (auto simp add: api_update_inventory_for_donor_def intro!: inventory_ok_upd
      dest: inventory_ok_entry split: option.splits)

lemma requestor_register_ok:
  "inventory_ok (blood_inventory s) \<Longrightarrow>
   inventory_ok (blood_inventory (snd (requestor_register i s)))"
  by (simp add: requestor_register_def)

lemma requestor_confirm_donor_ok:
  "inventory_ok (blood_inventory s) \<Longrightarrow>
   inventory_ok (blood_inventory (snd (requestor_confirm_donor rq a s)))"
  by (simp add: requestor_confirm_donor_def split: option.splits)

lemma confirm_donor_for_request_ok:
  "inventory_ok (blood_inventory s) \<Longrightarrow>
   inventory_ok (blood_inventory (snd (confirm_donor_for_request r a s)))"
  by (simp add: confirm_donor_for_request_def split: option.splits)

lemma take_from_inventory_ok:
  "inventory_ok (blood_inventory s) \<Longrightarrow>
   inventory_ok (blood_inventory (snd (take_from_inventory rq bg u r dn s)))"
  by (simp add: take_from_inventory_def Let_def update_inventory_remove_ok split: option.splits)

lemma request_blood_ok:
  "inventory_ok (blood_inventory s) \<Longrightarrow>
   inventory_ok (blood_inventory (snd (request_blood now r rq bg u c ur s)))"
  by (simp add: request_blood_def Let_def)

lemma use_inventory_for_request_ok:
  "inventory_ok (blood_inventory s) \<Longrightarrow>
   inventory_ok (blood_inventory (snd (use_inventory_for_request r u s)))"
  by (simp add: use_inventory_for_request_def Let_def update_inventory_remove_ok split: option.splits)

lemma fulfill_request_ok:
  "inventory_ok (blood_inventory s) \<Longrightarrow>
   inventory_ok (blood_inventory (snd (fulfill_request r u s)))"
  by (simp add: fulfill_request_def Let_def update_inventory_remove_ok split: option.splits)

lemma run_ok:
  assumes "inventory_ok (blood_inventory s)" "units_nonneg x"
  shows "inventory_ok (blood_inventory (snd (run now x s)))"
  using assms
  by (cases x)
    (simp_all add: donor_register_ok donor_update_ok record_donation_ok donate_to_inventory_ok
      donor_accept_request_ok donor_confirm_donation_ok api_update_inventory_for_donor_ok
      requestor_register_ok requestor_confirm_donor_ok confirm_donor_for_request_ok
      take_from_inventory_ok request_blood_ok use_inventory_for_request_ok fulfill_request_ok)

lemma run_all_ok:
  "inventory_ok (blood_inventory s) \<Longrightarrow> list_all (\<lambda>p. units_nonneg (snd p)) xs \<Longrightarrow>
   inventory_ok (blood_inventory (run_all xs s))"
proof (induction xs arbitrary: s)
  case Nil
  then show ?case by simp
next
  case (Cons p xs)
  obtain now x where p: "p = (now, x)" by (cases p)
  from Cons.prems p have "inventory_ok (blood_inventory (snd (run now x s)))"
    by (simp add: run_ok)
  with Cons.IH[of "snd (run now x s)"] Cons.prems p show ?case by simp
qed

lemma add_sample_donor_ok:
  assumes ok: "inventory_ok (blood_inventory s)" and r: "add_sample_donor d s = Some s'"
  shows "inventory_ok (blood_inventory s')"
proof (cases "blood_inventory s (blood_group d)")
  case None
  with r show ?thesis by (simp add: add_sample_donor_def)
next
  case (Some e)
  from ok Some have "0 \<le> units e" by (rule inventory_ok_entry)
  with ok have "inventory_ok ((blood_inventory s)(blood_group d \<mapsto> e\<lparr>donors := donors e @ [donor_id d]\<rparr>))"
    by (simp add: inventory_ok_upd)
  with r Some show ?thesis by (auto simp add: add_sample_donor_def)
qed

lemma add_sample_donors_ok:
  "inventory_ok (blood_inventory s) \<Longrightarrow> add_sample_donors ds s = Some s' \<Longrightarrow>
   inventory_ok (blood_inventory s')"
proof (induction ds arbitrary: s)
  case Nil
  then show ?case by simp
next
  case (Cons d ds)
  then show ?case by (auto split: option.splits dest: add_sample_donor_ok)
qed

lemma DEFAULT_INVENTORY_ok: "inventory_ok DEFAULT_INVENTORY"
  by (simp add: inventory_ok_def DEFAULT_INVENTORY_def)

lemma initial_db_ok: "inventory_ok (blood_inventory initial_db)"
proof -
  have s: "inventory_ok (blood_inventory startup_db)"
    by (simp add: startup_db_def DEFAULT_INVENTORY_ok)
  have "inventory_ok (blood_inventory s')" if "init_sample_data startup_db = Some s'" for s'
    using that s
    by (auto simp add: init_sample_data_def split: if_splits option.splits dest: add_sample_donors_ok)
  with s show ?thesis
    by (simp add: initial_db_def split: option.splits)
qed

text \<open>
  Claim C6. When every unit amount supplied with an operation is non-negative, no run
  of operations from the start-up state reaches a state in which a blood group has a
  negative unit count: every subtraction is clamped at 0 and every addition adds a
  non-negative amount.
\<close>

theorem inventory_never_negative:
  assumes "list_all (\<lambda>p. units_nonneg (snd p)) xs"
  shows "0 \<le> inventory_units (blood_inventory (run_all xs initial_db)) g"
proof -
  from initial_db_ok assms have "inventory_ok (blood_inventory (run_all xs initial_db))"
    by (rule run_all_ok)
  then show ?thesis
    by (auto simp add: inventory_units_def inventory_ok_def split: option.splits)
qed

lemma init_sample_data_startup:
  "init_sample_data startup_db =
     Some \<lparr>donors_db = map (\<lambda>d. (donor_id d, d)) sample_donors,
           requestors_db = [''REQ-X1Y2Z3A4'' \<mapsto> sample_requestor],
           blood_requests_db = [''BR-B5C6D7E8'' \<mapsto> sample_request],
           donations_db = Map.empty, donor_request_assignments = Map.empty,
           blood_inventory = map_of initial_inventory\<rparr>"
  by (simp add: init_sample_data_def startup_db_def sample_donors_def add_sample_donor_def
      DEFAULT_INVENTORY_def initial_inventory_def sample_requestor_def sample_request_def fun_eq_iff)

lemma initial_db_eq:
  "initial_db =
     \<lparr>donors_db = map (\<lambda>d. (donor_id d, d)) sample_donors,
      requestors_db = [''REQ-X1Y2Z3A4'' \<mapsto> sample_requestor],
      blood_requests_db = [''BR-B5C6D7E8'' \<mapsto> sample_request],
      donations_db = Map.empty, donor_request_assignments = Map.empty,
      blood_inventory = map_of initial_inventory\<rparr>"
  by (simp add: initial_db_def init_sample_data_startup)

theorem inventory_never_negative_witness:
  "list_all (\<lambda>p. units_nonneg (snd p))
     [(\<lparr>year = 2025, month = 2, day = 1, hour = 9, minute = 0, second = 0, microsecond = 0\<rparr>,
       RecordDonation ''DON-A2B3C4D5'' ''DN-00000001'' (Some 2)),
      (\<lparr>year = 2025, month = 2, day = 1, hour = 10, minute = 0, second = 0, microsecond = 0\<rparr>,
       FulfillRequest ''BR-B5C6D7E8'' (Some 70))] \<and>
   0 \<le> inventory_units (blood_inventory (run_all
     [(\<lparr>year = 2025, month = 2, day = 1, hour = 9, minute = 0, second = 0, microsecond = 0\<rparr>,
       RecordDonation ''DON-A2B3C4D5'' ''DN-00000001'' (Some 2)),
      (\<lparr>year = 2025, month = 2, day = 1, hour = 10, minute = 0, second = 0, microsecond = 0\<rparr>,
       FulfillRequest ''BR-B5C6D7E8'' (Some 70))] initial_db)) ''A+'' \<and>
   inventory_units (blood_inventory (run_all
     [(\<lparr>year = 2025, month = 2, day = 1, hour = 9, minute = 0, second = 0, microsecond = 0\<rparr>,
       RecordDonation ''DON-A2B3C4D5'' ''DN-00000001'' (Some 2)),
      (\<lparr>year = 2025, month = 2, day = 1, hour = 10, minute = 0, second = 0, microsecond = 0\<rparr>,
       FulfillRequest ''BR-B5C6D7E8'' (Some 70))] initial_db)) ''A+'' = 0 \<and>
   inventory_units (blood_inventory (run_all
     [(\<lparr>year = 2025, month = 2, day = 1, hour = 9, minute = 0, second = 0, microsecond = 0\<rparr>,
       RecordDonation ''DON-A2B3C4D5'' ''DN-00000001'' (Some 2)),
      (\<lparr>year = 2025, month = 2, day = 1, hour = 10, minute = 0, second = 0, microsecond = 0\<rparr>,
       FulfillRequest ''BR-B5C6D7E8'' (Some 70))] initial_db)) ''A-'' = 32"
proof -
  let ?xs = "[(\<lparr>year = 2025, month = 2, day = 1, hour = 9, minute = 0, second = 0, microsecond = 0\<rparr>,
       RecordDonation ''DON-A2B3C4D5'' ''DN-00000001'' (Some 2)),
      (\<lparr>year = 2025, month = 2, day = 1, hour = 10, minute = 0, second = 0, microsecond = 0\<rparr>,
       FulfillRequest ''BR-B5C6D7E8'' (Some 70))]"
  have h: "list_all (\<lambda>p. units_nonneg (snd p)) ?xs" by (simp add: opt_nonneg_def)
  have v: "inventory_units (blood_inventory (run_all ?xs initial_db)) ''A+'' = 0 \<and>
           inventory_units (blood_inventory (run_all ?xs initial_db)) ''A-'' = 32"
    by (simp add: initial_db_eq sample_donors_def sample_request_def initial_inventory_def
        record_donation_def can_donate_def fulfill_request_def update_inventory_def
        inventory_units_def Let_def)
  from h inventory_never_negative[OF h, of "''A+''"] v show ?thesis by blast
qed

text \<open>
  Claim C5. For an existing requestor, a blood group with an inventory entry and a
  positive number of units, \<^const>\<open>take_from_inventory\<close> fails when the units exceed the
  stock and then leaves every store as it was; otherwise it succeeds, takes exactly the
  units from the group's stock, stores a new request of type \<^verbatim>\<open>inventory_withdrawal\<close>
  with status \<^verbatim>\<open>fulfilled\<close> and as many fulfilled units as units needed, and stores a
  completed donation whose donor id is \<^verbatim>\<open>INVENTORY\<close>.
\<close>

theorem take_from_inventory_result:
  assumes "requestors_db s rqid = Some rq" "blood_inventory s bg = Some e" "0 < n"
  shows "(units e < n \<longrightarrow>
            take_from_inventory rqid (Some bg) (Some n) rid did s = (Failed InsufficientInventory, s)) \<and>
         (n \<le> units e \<longrightarrow>
            fst (take_from_inventory rqid (Some bg) (Some n) rid did s) = Done \<and>
            blood_inventory (snd (take_from_inventory rqid (Some bg) (Some n) rid did s))
              = (blood_inventory s)(bg \<mapsto> e\<lparr>units := units e - n\<rparr>) \<and>
            blood_requests_db (snd (take_from_inventory rqid (Some bg) (Some n) rid did s))
              = (blood_requests_db s)(rid \<mapsto>
                  \<lparr>request_id = rid, rq_requestor_id = rqid, rq_blood_group = bg,
                   units_needed = n, fulfilled_units = n, inventory_used = None,
                   rq_status = ''fulfilled'', location = None, urgency = ''normal'',
                   matched_donors = [], rq_type = Some ''inventory_withdrawal''\<rparr>) \<and>
            donations_db (snd (take_from_inventory rqid (Some bg) (Some n) rid did s))
              = (donations_db s)(did \<mapsto>
                  \<lparr>donation_id = did, dn_donor_id = ''INVENTORY'', dn_blood_group = bg,
                   dn_units = n, dn_request_id = Some rid, dn_assignment_id = None,
                   dn_requestor_id = None, dn_status = Some ''completed''\<rparr>))"
  using assms
  by (simp add: take_from_inventory_def Let_def update_inventory_def max_def)

theorem take_from_inventory_result_witness:
  "take_from_inventory ''REQ-X1Y2Z3A4'' (Some ''O-'') (Some 45) ''BR-00000001'' ''DN-00000001'' initial_db
     = (Failed InsufficientInventory, initial_db) \<and>
   fst (take_from_inventory ''REQ-X1Y2Z3A4'' (Some ''O-'') (Some 40) ''BR-00000001'' ''DN-00000001'' initial_db)
     = Done \<and>
   blood_inventory
     (snd (take_from_inventory ''REQ-X1Y2Z3A4'' (Some ''O-'') (Some 40) ''BR-00000001'' ''DN-00000001'' initial_db))
     ''O-'' = Some \<lparr>units = 0, donors = [''DON-M3N4O5P6'']\<rparr> \<and>
   map_option rq_status (blood_requests_db
     (snd (take_from_inventory ''REQ-X1Y2Z3A4'' (Some ''O-'') (Some 40) ''BR-00000001'' ''DN-00000001'' initial_db))
     ''BR-00000001'') = Some ''fulfilled'' \<and>
   map_option dn_donor_id (donations_db
     (snd (take_from_inventory ''REQ-X1Y2Z3A4'' (Some ''O-'') (Some 40) ''BR-00000001'' ''DN-00000001'' initial_db))
     ''DN-00000001'') = Some ''INVENTORY''"
proof -
  have rq: "requestors_db initial_db ''REQ-X1Y2Z3A4'' = Some sample_requestor"
    by (simp add: initial_db_eq)
  have e: "blood_inventory initial_db ''O-'' = Some \<lparr>units = 40, donors = [''DON-M3N4O5P6'']\<rparr>"
    by (simp add: initial_db_eq initial_inventory_def)
  from take_from_inventory_result[OF rq e, of 45 "''BR-00000001''" "''DN-00000001''"]
  have 1: "take_from_inventory ''REQ-X1Y2Z3A4'' (Some ''O-'') (Some 45) ''BR-00000001'' ''DN-00000001'' initial_db
     = (Failed InsufficientInventory, initial_db)" by simp
  from take_from_inventory_result[OF rq e, of 40 "''BR-00000001''" "''DN-00000001''"]
  have 2: "fst (take_from_inventory ''REQ-X1Y2Z3A4'' (Some ''O-'') (Some 40) ''BR-00000001'' ''DN-00000001'' initial_db)
     = Done"
   and 3: "blood_inventory
     (snd (take_from_inventory ''REQ-X1Y2Z3A4'' (Some ''O-'') (Some 40) ''BR-00000001'' ''DN-00000001'' initial_db))
     ''O-'' = Some \<lparr>units = 0, donors = [''DON-M3N4O5P6'']\<rparr>"
   and 4: "map_option rq_status (blood_requests_db
     (snd (take_from_inventory ''REQ-X1Y2Z3A4'' (Some ''O-'') (Some 40) ''BR-00000001'' ''DN-00000001'' initial_db))
     ''BR-00000001'') = Some ''fulfilled''"
   and 5: "map_option dn_donor_id (donations_db
     (snd (take_from_inventory ''REQ-X1Y2Z3A4'' (Some ''O-'') (Some 40) ''BR-00000001'' ''DN-00000001'' initial_db))
     ''DN-00000001'') = Some ''INVENTORY''"
    by simp_all
  from 1 2 3 4 5 show ?thesis by blast
qed

subsection \<open>Confirming a donation\<close>

text \<open>
  Claim C10. \<^const>\<open>donor_confirm_donation\<close> does not apply the 56-day rule: whenever the
  assignment, its donor and its request exist, the route succeeds, whatever the donor's
  last donation date, and completes the assignment, credits the request, takes the units
  from the inventory entry of the donor's group (clamped at 0), updates the donor's last
  donation date and donation count and stores a completed donation. A donor whom
  \<^const>\<open>can_donate\<close> rejects is turned away by \<^const>\<open>donate_to_inventory\<close> and by
  \<^const>\<open>record_donation\<close>.
\<close>

theorem confirm_donation_ignores_cooldown:
  assumes a: "donor_request_assignments s aid = Some a"
    and d: "map_of (donors_db s) (as_donor_id a) = Some d"
    and r: "blood_requests_db s (as_request_id a) = Some r"
    and n: "n = (case f of None \<Rightarrow> units_offered a | Some u \<Rightarrow> u)"
  shows "fst (donor_confirm_donation now aid dn f s) = Done \<and>
         donor_request_assignments (snd (donor_confirm_donation now aid dn f s)) aid
           = Some (a\<lparr>as_status := ''completed'', units_donated := Some n\<rparr>) \<and>
         map_option fulfilled_units
           (blood_requests_db (snd (donor_confirm_donation now aid dn f s)) (as_request_id a))
           = Some (fulfilled_units r + n) \<and>
         (\<forall>e. blood_inventory s (blood_group d) = Some e \<longrightarrow>
            blood_inventory (snd (donor_confirm_donation now aid dn f s)) (blood_group d)
              = Some (e\<lparr>units := max 0 (units e - n)\<rparr>)) \<and>
         map_of (donors_db (snd (donor_confirm_donation now aid dn f s))) (as_donor_id a)
           = Some (d\<lparr>last_donation := Some (strftime_date now),
                     total_donations := total_donations d + 1\<rparr>) \<and>
         donations_db (snd (donor_confirm_donation now aid dn f s)) dn
           = Some \<lparr>donation_id = dn, dn_donor_id = as_donor_id a, dn_blood_group = blood_group d,
                   dn_units = n, dn_request_id = Some (as_request_id a),
                   dn_assignment_id = Some aid, dn_requestor_id = None,
                   dn_status = Some ''completed''\<rparr> \<and>
         (\<not> can_donate now (last_donation d) \<longrightarrow>
            donate_to_inventory now (as_donor_id a) dn' u s = (Failed MustWait56Days, s) \<and>
            record_donation now (as_donor_id a) dn' u s = (Failed MustWait56Days, s))"
  using assms
  by (auto simp add: donor_confirm_donation_def donate_to_inventory_def record_donation_def Let_def
      map_of_dict_set split: option.splits)

lemma accepted_db_eq:
  "accepted_db =
     \<lparr>donors_db = map (\<lambda>d. (donor_id d, d)) sample_donors,
      requestors_db = [''REQ-X1Y2Z3A4'' \<mapsto> sample_requestor],
      blood_requests_db = [''BR-B5C6D7E8'' \<mapsto> sample_request],
      donations_db = Map.empty,
      donor_request_assignments =
        [''ASGN-00000001'' \<mapsto>
           \<lparr>assignment_id = ''ASGN-00000001'', as_donor_id = ''DON-E5F6G7H8'',
            as_request_id = ''BR-B5C6D7E8'', units_offered = 3, as_status = ''accepted'',
            units_donated = None\<rparr>],
      blood_inventory = map_of initial_inventory\<rparr>"
  by (simp add: accepted_db_def donor_accept_request_def initial_db_eq sample_donors_def Let_def)

theorem confirm_donation_ignores_cooldown_witness:
  "\<not> can_donate \<lparr>year = 2025, month = 1, day = 20, hour = 9, minute = 0, second = 0, microsecond = 0\<rparr>
       (Some ''2025-01-10'') \<and>
   fst (donor_confirm_donation
          \<lparr>year = 2025, month = 1, day = 20, hour = 9, minute = 0, second = 0, microsecond = 0\<rparr>
          ''ASGN-00000001'' ''DN-00000001'' None accepted_db) = Done \<and>
   map_option (\<lambda>r. (fulfilled_units r, rq_status r))
     (blood_requests_db (snd (donor_confirm_donation
          \<lparr>year = 2025, month = 1, day = 20, hour = 9, minute = 0, second = 0, microsecond = 0\<rparr>
          ''ASGN-00000001'' ''DN-00000001'' None accepted_db)) ''BR-B5C6D7E8'') = Some (3, ''partial'') \<and>
   map_option units (blood_inventory (snd (donor_confirm_donation
          \<lparr>year = 2025, month = 1, day = 20, hour = 9, minute = 0, second = 0, microsecond = 0\<rparr>
          ''ASGN-00000001'' ''DN-00000001'' None accepted_db)) ''A+'') = Some 47 \<and>
   map_option (\<lambda>d. (last_donation d, total_donations d))
     (map_of (donors_db (snd (donor_confirm_donation
          \<lparr>year = 2025, month = 1, day = 20, hour = 9, minute = 0, second = 0, microsecond = 0\<rparr>
          ''ASGN-00000001'' ''DN-00000001'' None accepted_db))) ''DON-E5F6G7H8'')
     = Some (Some ''2025-01-20'', 4) \<and>
   donate_to_inventory
     \<lparr>year = 2025, month = 1, day = 20, hour = 9, minute = 0, second = 0, microsecond = 0\<rparr>
     ''DON-E5F6G7H8'' ''DN-00000002'' (Some 1) accepted_db = (Failed MustWait56Days, accepted_db)"
proof -
  let ?now = "\<lparr>year = 2025, month = 1, day = 20, hour = 9, minute = 0, second = 0, microsecond = 0\<rparr>"
  let ?a = "\<lparr>assignment_id = ''ASGN-00000001'', as_donor_id = ''DON-E5F6G7H8'',
            as_request_id = ''BR-B5C6D7E8'', units_offered = 3, as_status = ''accepted'',
            units_donated = None\<rparr>"
  let ?d = "\<lparr>donor_id = ''DON-E5F6G7H8'', age = 32, blood_group = ''A+'', city = ''Delhi'',
       state = ''Delhi'', available = True, status = ''active'', total_donations = 3,
       last_donation = Some ''2025-01-10''\<rparr>"
  have a: "donor_request_assignments accepted_db ''ASGN-00000001'' = Some ?a"
    by (simp add: accepted_db_eq)
  have d: "map_of (donors_db accepted_db) (as_donor_id ?a) = Some ?d"
    by (simp add: accepted_db_eq sample_donors_def)
  have r: "blood_requests_db accepted_db (as_request_id ?a) = Some sample_request"
    by (simp add: accepted_db_eq)
  have n: "(3::int) = (case None of None \<Rightarrow> units_offered ?a | Some u \<Rightarrow> u)" by simp
  have e: "blood_inventory accepted_db ''A+'' = Some \<lparr>units = 50, donors = [''DON-E5F6G7H8'']\<rparr>"
    by (simp add: accepted_db_eq initial_inventory_def)
  have c: "\<not> can_donate ?now (Some ''2025-01-10'')"
    by (simp add: can_donate_def date_eval timedelta_days_def total_microseconds_def)
  have f: "strftime_date ?now = ''2025-01-20''"
    by (simp add: strftime_date_def digit_char_def)
  have st: "rq_status (the (blood_requests_db (snd (donor_confirm_donation ?now ''ASGN-00000001''
              ''DN-00000001'' None accepted_db)) ''BR-B5C6D7E8'')) = ''partial''"
    by (simp add: donor_confirm_donation_def a[simplified] d[simplified] r[simplified] e Let_def
        sample_request_def)
  note t = confirm_donation_ignores_cooldown[OF a d r n, of ?now "''DN-00000001''" "''DN-00000002''" "Some 1"]
  from t have 1: "fst (donor_confirm_donation ?now ''ASGN-00000001'' ''DN-00000001'' None accepted_db) = Done"
    by blast
  from t have 2: "map_option fulfilled_units
           (blood_requests_db (snd (donor_confirm_donation ?now ''ASGN-00000001'' ''DN-00000001'' None accepted_db))
             ''BR-B5C6D7E8'') = Some 3"
    by (simp add: sample_request_def)
  from 2 st have both: "map_option (\<lambda>r. (fulfilled_units r, rq_status r))
     (blood_requests_db (snd (donor_confirm_donation ?now ''ASGN-00000001'' ''DN-00000001'' None accepted_db))
        ''BR-B5C6D7E8'') = Some (3, ''partial'')"
    by (auto simp add: map_option_case split: option.splits)
  from t e have 3: "map_option units (blood_inventory (snd (donor_confirm_donation ?now
          ''ASGN-00000001'' ''DN-00000001'' None accepted_db)) ''A+'') = Some 47"
    by simp
  from t f have 4: "map_option (\<lambda>d. (last_donation d, total_donations d))
     (map_of (donors_db (snd (donor_confirm_donation ?now
          ''ASGN-00000001'' ''DN-00000001'' None accepted_db))) ''DON-E5F6G7H8'')
     = Some (Some ''2025-01-20'', 4)"
    by simp
  from t c have 5: "donate_to_inventory ?now ''DON-E5F6G7H8'' ''DN-00000002'' (Some 1) accepted_db
       = (Failed MustWait56Days, accepted_db)"
    by simp
  from c 1 both 3 4 5 show ?thesis by blast
qed

subsection \<open>Request status\<close>

text \<open>
  Claim C1 says that a credit of 0 units to a request with no fulfilled units leaves its
  status \<^verbatim>\<open>pending\<close>. \<^const>\<open>use_inventory_for_request\<close> with 0 units on the pending
  sample request, which needs 5 units and has 0 fulfilled, succeeds and sets its status to
  \<^verbatim>\<open>partial\<close>.
\<close>

theorem credit_status_counterexample:
  "map_option (\<lambda>r. (rq_status r, units_needed r, fulfilled_units r))
     (blood_requests_db initial_db ''BR-B5C6D7E8'') = Some (''pending'', 5, 0) \<and>
   fst (use_inventory_for_request ''BR-B5C6D7E8'' (Some 0) initial_db) = Done \<and>
   map_option (\<lambda>r. (rq_status r, units_needed r, fulfilled_units r))
     (blood_requests_db (snd (use_inventory_for_request ''BR-B5C6D7E8'' (Some 0) initial_db))
        ''BR-B5C6D7E8'') = Some (''partial'', 5, 0) \<and>
   claimed_status ''pending'' 5 (0 + 0) = ''pending''"
  by (simp add: initial_db_eq sample_request_def initial_inventory_def use_inventory_for_request_def
      inventory_units_def Let_def claimed_status_def)

text \<open>
  Claim C1, amended. After \<^const>\<open>donor_confirm_donation\<close>,
  \<^const>\<open>use_inventory_for_request\<close> or \<^const>\<open>fulfill_request\<close> has credited units to a
  request, its fulfilled units have grown by the credit and its status is
  \<^verbatim>\<open>fulfilled\<close> when \<open>units_needed - fulfilled_units \<le> 0\<close> and \<^verbatim>\<open>partial\<close>
  otherwise, also when the fulfilled units are still 0.
\<close>

theorem credit_status:
  assumes r: "blood_requests_db s rid = Some r"
  shows "(\<forall>aid a d. donor_request_assignments s aid = Some a \<and> as_request_id a = rid \<and>
             map_of (donors_db s) (as_donor_id a) = Some d \<longrightarrow>
           map_option (\<lambda>r'. (fulfilled_units r', rq_status r'))
             (blood_requests_db (snd (donor_confirm_donation now aid dn (Some n) s)) rid)
           = Some (fulfilled_units r + n, credited_status (units_needed r) (fulfilled_units r + n))) \<and>
         (n \<le> inventory_units (blood_inventory s) (rq_blood_group r) \<longrightarrow>
           map_option (\<lambda>r'. (fulfilled_units r', rq_status r'))
             (blood_requests_db (snd (use_inventory_for_request rid (Some n) s)) rid)
           = Some (fulfilled_units r + n, credited_status (units_needed r) (fulfilled_units r + n))) \<and>
         map_option (\<lambda>r'. (fulfilled_units r', rq_status r'))
             (blood_requests_db (snd (fulfill_request rid (Some n) s)) rid)
           = Some (fulfilled_units r + n, credited_status (units_needed r) (fulfilled_units r + n))"
proof -
  have 1: "map_option (\<lambda>r'. (fulfilled_units r', rq_status r'))
             (blood_requests_db (snd (donor_confirm_donation now aid dn (Some n) s)) rid)
           = Some (fulfilled_units r + n, credited_status (units_needed r) (fulfilled_units r + n))"
    if "donor_request_assignments s aid = Some a" "as_request_id a = rid"
       "map_of (donors_db s) (as_donor_id a) = Some d" for aid a d
    using that r
    by (simp add: donor_confirm_donation_def Let_def credited_status_def split: option.splits)
  have 2: "n \<le> inventory_units (blood_inventory s) (rq_blood_group r) \<longrightarrow>
           map_option (\<lambda>r'. (fulfilled_units r', rq_status r'))
             (blood_requests_db (snd (use_inventory_for_request rid (Some n) s)) rid)
           = Some (fulfilled_units r + n, credited_status (units_needed r) (fulfilled_units r + n))"
    using r by (simp add: use_inventory_for_request_def Let_def credited_status_def)
  have 3: "map_option (\<lambda>r'. (fulfilled_units r', rq_status r'))
             (blood_requests_db (snd (fulfill_request rid (Some n) s)) rid)
           = Some (fulfilled_units r + n, credited_status (units_needed r) (fulfilled_units r + n))"
    using r by (simp add: fulfill_request_def Let_def credited_status_def)
  from 1 2 3 show ?thesis by blast
qed

theorem credit_status_witness:
  "map_option (\<lambda>r'. (fulfilled_units r', rq_status r'))
     (blood_requests_db (snd (donor_confirm_donation
        \<lparr>year = 2025, month = 2, day = 1, hour = 9, minute = 0, second = 0, microsecond = 0\<rparr>
        ''ASGN-00000001'' ''DN-00000001'' (Some 3) accepted_db)) ''BR-B5C6D7E8'')
     = Some (3, ''partial'') \<and>
   map_option (\<lambda>r'. (fulfilled_units r', rq_status r'))
     (blood_requests_db (snd (use_inventory_for_request ''BR-B5C6D7E8'' (Some 5) accepted_db)) ''BR-B5C6D7E8'')
     = Some (5, ''fulfilled'') \<and>
   map_option (\<lambda>r'. (fulfilled_units r', rq_status r'))
     (blood_requests_db (snd (fulfill_request ''BR-B5C6D7E8'' (Some 0) accepted_db)) ''BR-B5C6D7E8'')
     = Some (0, ''partial'')"
proof -
  let ?now = "\<lparr>year = 2025, month = 2, day = 1, hour = 9, minute = 0, second = 0, microsecond = 0\<rparr>"
  let ?a = "\<lparr>assignment_id = ''ASGN-00000001'', as_donor_id = ''DON-E5F6G7H8'',
            as_request_id = ''BR-B5C6D7E8'', units_offered = 3, as_status = ''accepted'',
            units_donated = None\<rparr>"
  let ?d = "\<lparr>donor_id = ''DON-E5F6G7H8'', age = 32, blood_group = ''A+'', city = ''Delhi'',
       state = ''Delhi'', available = True, status = ''active'', total_donations = 3,
       last_donation = Some ''2025-01-10''\<rparr>"
  have r: "blood_requests_db accepted_db ''BR-B5C6D7E8'' = Some sample_request"
    by (simp add: accepted_db_eq)
  have h: "donor_request_assignments accepted_db ''ASGN-00000001'' = Some ?a \<and>
           as_request_id ?a = ''BR-B5C6D7E8'' \<and>
           map_of (donors_db accepted_db) (as_donor_id ?a) = Some ?d"
    by (simp add: accepted_db_eq sample_donors_def)
  have i: "5 \<le> inventory_units (blood_inventory accepted_db) (rq_blood_group sample_request)"
    by (simp add: accepted_db_eq initial_inventory_def sample_request_def inventory_units_def)
  have v: "fulfilled_units sample_request = 0" "units_needed sample_request = 5"
    by (simp_all add: sample_request_def)
  from credit_status[OF r, of ?now "''DN-00000001''" 3] h
  have 1: "map_option (\<lambda>r'. (fulfilled_units r', rq_status r'))
     (blood_requests_db (snd (donor_confirm_donation ?now
        ''ASGN-00000001'' ''DN-00000001'' (Some 3) accepted_db)) ''BR-B5C6D7E8'')
     = Some (fulfilled_units sample_request + 3,
             credited_status (units_needed sample_request) (fulfilled_units sample_request + 3))"
    by blast
  from credit_status[OF r, of ?now "''DN-00000001''" 5] i
  have 2: "map_option (\<lambda>r'. (fulfilled_units r', rq_status r'))
     (blood_requests_db (snd (use_inventory_for_request ''BR-B5C6D7E8'' (Some 5) accepted_db)) ''BR-B5C6D7E8'')
     = Some (fulfilled_units sample_request + 5,
             credited_status (units_needed sample_request) (fulfilled_units sample_request + 5))"
    by blast
  from credit_status[OF r, of ?now "''DN-00000001''" 0]
  have 3: "map_option (\<lambda>r'. (fulfilled_units r', rq_status r'))
     (blood_requests_db (snd (fulfill_request ''BR-B5C6D7E8'' (Some 0) accepted_db)) ''BR-B5C6D7E8'')
     = Some (fulfilled_units sample_request + 0,
             credited_status (units_needed sample_request) (fulfilled_units sample_request + 0))"
    by blast
  from 1 2 3 show ?thesis by (simp add: v credited_status_def)
qed

text \<open>Every route keeps the request invariant, \<^const>\<open>request_blood\<close> provided the
  units needed are positive.\<close>

lemma donor_confirm_donation_requests_ok:
  "requests_ok s \<Longrightarrow> requests_ok (snd (donor_confirm_donation now a dn u s))"
  by (simp add: requests_ok_def donor_confirm_donation_def Let_def request_invariant_def
      split: option.splits)

lemma use_inventory_for_request_requests_ok:
  "requests_ok s \<Longrightarrow> requests_ok (snd (use_inventory_for_request r u s))"
  by (simp add: requests_ok_def use_inventory_for_request_def Let_def request_invariant_def
      split: option.splits)

lemma fulfill_request_requests_ok:
  "requests_ok s \<Longrightarrow> requests_ok (snd (fulfill_request r u s))"
  by (simp add: requests_ok_def fulfill_request_def Let_def request_invariant_def
      split: option.splits)

lemma take_from_inventory_requests_ok:
  "requests_ok s \<Longrightarrow> requests_ok (snd (take_from_inventory rq bg u r dn s))"
  by (simp add: requests_ok_def take_from_inventory_def Let_def request_invariant_def
      split: option.splits)

lemma request_blood_requests_ok:
  "requests_ok s \<Longrightarrow> 0 < u \<Longrightarrow> requests_ok (snd (request_blood now r rq bg u c ur s))"
  by (simp add: requests_ok_def request_blood_def Let_def request_invariant_def)

lemma other_routes_requests_ok:
  assumes "requests_ok s"
  shows "requests_ok (snd (donor_register i ag bg w c st s))"
    and "requests_ok (snd (donor_update i av co sta s))"
    and "requests_ok (snd (record_donation now i dn u s))"
    and "requests_ok (snd (donate_to_inventory now i dn u s))"
    and "requests_ok (snd (donor_accept_request i r a u s))"
    and "requests_ok (snd (api_update_inventory_for_donor i s))"
    and "requests_ok (snd (requestor_register i s))"
    and "requests_ok (snd (requestor_confirm_donor rq a s))"
    and "requests_ok (snd (confirm_donor_for_request r a s))"
  using assms
  by (simp_all add: requests_ok_def donor_register_def donor_update_def record_donation_def
      donate_to_inventory_def donor_accept_request_def api_update_inventory_for_donor_def
      requestor_register_def requestor_confirm_donor_def confirm_donor_for_request_def Let_def
      split: option.splits)

lemma run_requests_ok:
  assumes "requests_ok s" "positive_request x"
  shows "requests_ok (snd (run now x s))"
  using assms
  by (cases x)
    (simp_all add: donor_confirm_donation_requests_ok use_inventory_for_request_requests_ok
      fulfill_request_requests_ok take_from_inventory_requests_ok request_blood_requests_ok
      other_routes_requests_ok)

lemma initial_db_requests_ok: "requests_ok initial_db"
  by (simp add: requests_ok_def initial_db_eq sample_request_def request_invariant_def)

lemma run_all_requests_ok:
  "requests_ok s \<Longrightarrow> list_all (\<lambda>p. positive_request (snd p)) xs \<Longrightarrow> requests_ok (run_all xs s)"
proof (induction xs arbitrary: s)
  case Nil
  then show ?case by simp
next
  case (Cons p xs)
  obtain now x where p: "p = (now, x)" by (cases p)
  from Cons.prems p have "requests_ok (snd (run now x s))"
    by (simp add: run_requests_ok)
  with Cons.IH[of "snd (run now x s)"] Cons.prems p show ?case by simp
qed

text \<open>
  Claim C2. The invariant \<open>status = fulfilled \<longleftrightarrow> fulfilled_units \<ge> units_needed\<close> is
  claimed for every reachable request, a freshly created one with 0 units needed
  included. \<^const>\<open>request_blood\<close> with 0 units needed stores a request with status
  \<^verbatim>\<open>pending\<close>, 0 fulfilled units and 0 units needed, on which the invariant is false.
\<close>

theorem request_blood_zero_units:
  "map_option (\<lambda>r. (rq_status r, fulfilled_units r, units_needed r, request_invariant r))
     (blood_requests_db
        (run_all
           [(\<lparr>year = 2025, month = 2, day = 1, hour = 9, minute = 0, second = 0, microsecond = 0\<rparr>,
             RequestBlood ''BR-00000001'' None ''A+'' 0 None None)]
           initial_db)
        ''BR-00000001'')
   = Some (''pending'', 0, 0, False)"
  by (simp add: request_blood_def Let_def request_invariant_def)

end
